theory Spec2Isabelle
  imports Complex_Main
begin

section \<open>JavaScript values used by the server\<close>

text \<open>
  Strings are lists of code units; the model covers the code units below 256 (Latin-1), which
  is what \<^typ>\<open>char\<close> holds. Numbers are exact rationals: the arithmetic the tools perform
  (sums and products of a few small decimals) is idealised, rounding of IEEE doubles is not
  modelled.
\<close>

definition isSpace :: "char \<Rightarrow> bool" where
  \<comment> \<open>the class \<open>\s\<close> of regular expressions, which is also what \<open>trim\<close> strips\<close>
  "isSpace c = ((of_char c :: nat) \<in> set [9, 10, 11, 12, 13, 32, 160])"

definition lower_char :: "char \<Rightarrow> char" where
  "lower_char c =
     (let n = (of_char c :: nat)
      in if (65 \<le> n \<and> n \<le> 90) \<or> (192 \<le> n \<and> n \<le> 222 \<and> n \<noteq> 215)
         then char_of (n + 32) else c)"

definition toLowerCase :: "string \<Rightarrow> string" where
  "toLowerCase s = map lower_char s"

definition trim :: "string \<Rightarrow> string" where
  "trim s = rev (dropWhile isSpace (rev (dropWhile isSpace s)))"

fun startsWith :: "string \<Rightarrow> string \<Rightarrow> bool" where
  "startsWith s [] = True"
| "startsWith [] (c # t) = False"
| "startsWith (d # s) (c # t) = (d = c \<and> startsWith s t)"

fun includes_str :: "string \<Rightarrow> string \<Rightarrow> bool" where
  \<comment> \<open>\<open>s.includes(t)\<close>: \<open>t\<close> occurs in \<open>s\<close> as a contiguous run\<close>
  "includes_str [] t = (t = [])"
| "includes_str (c # s) t = (startsWith (c # s) t \<or> includes_str s t)"

function split_ws :: "string \<Rightarrow> string list" where
  \<comment> \<open>\<open>s.split(/\s+/)\<close>: cut at every maximal run of white space; a run at either end
      leaves an empty piece there, and the empty string gives one empty piece\<close>
  "split_ws [] = [[]]"
| "split_ws (c # cs) =
     (if isSpace c then [] # split_ws (dropWhile isSpace cs)
      else (case split_ws cs of [] \<Rightarrow> [[c]] | w # ws \<Rightarrow> (c # w) # ws))"
  by pat_completeness auto
termination
  by (relation "measure length") (auto simp: length_dropWhile_le less_Suc_eq_le)

fun join :: "string \<Rightarrow> string list \<Rightarrow> string" where
  "join sep [] = []"
| "join sep [w] = w"
| "join sep (w # v # ws) = w @ sep @ join sep (v # ws)"

definition slice0 :: "nat \<Rightarrow> 'a list \<Rightarrow> 'a list" where
  \<comment> \<open>\<open>xs.slice(0, n)\<close>\<close>
  "slice0 n xs = take n xs"

fun digits :: "nat \<Rightarrow> string" where
  "digits n = (if n < 10 then [''0123456789'' ! n]
               else digits (n div 10) @ [''0123456789'' ! (n mod 10)])"

definition decimal :: "int \<Rightarrow> string" where
  \<comment> \<open>sign and decimal digits\<close>
  "decimal i = (if i < 0 then CHR ''-'' # digits (nat (- i)) else digits (nat i))"

text \<open>
  Parts of the runtime are taken as given. The regular-expression engine is not modelled:
  \<open>matchAll\<close> gives, for an entity type and a text, the matches of that type's pattern in
  the order the engine yields them. \<open>StringToNumber\<close> is the conversion of a string to a
  number, \<open>NumberToString\<close> the text of a number where the model does not compute it.
\<close>

datatype js_number = Num rat | NaN | PosInfinity | NegInfinity

datatype entity_type =
  entity_person | entity_organization | entity_location | entity_date | entity_technology

record js_runtime =
  matchAll :: "entity_type \<Rightarrow> string \<Rightarrow> string list"
  StringToNumber :: "string \<Rightarrow> js_number"
  NumberToString :: "js_number \<Rightarrow> string"

definition String_int :: "js_runtime \<Rightarrow> int \<Rightarrow> string" where
  \<comment> \<open>an integer-valued number inside a template literal: below \<open>2 ^ 53\<close> every digit is
      printed; from there on the text is the shortest one that reads back as the same
      double, in exponent form from \<open>10 ^ 21\<close>\<close>
  "String_int rt i =
     (if \<bar>i\<bar> < 2 ^ 53 then decimal i else NumberToString rt (Num (of_int i)))"

definition js_times :: "int \<Rightarrow> int \<Rightarrow> js_number" where
  \<comment> \<open>\<open>a * b\<close> where \<open>b\<close> is 2 or 4: the product of doubles is exact unless it
      overflows\<close>
  "js_times a b =
     (if \<bar>a * b\<bar> < 2 ^ 1024 then Num (of_int (a * b))
      else if 0 < a * b then PosInfinity else NegInfinity)"

text \<open>
  Reading \<open>obj[key]\<close> on an object written as a literal finds the literal's own entries and,
  failing that, the members every object inherits from \<open>Object.prototype\<close>. An inherited
  member is a function (or, for \<open>__proto__\<close>, the prototype object itself), never a value of
  the type the table declares.
\<close>

datatype 'a js_value =
    Plain 'a            \<comment> \<open>a value of the declared type\<close>
  | ProtoMember string  \<comment> \<open>the member of \<open>Object.prototype\<close> of that name\<close>

definition Object_prototype :: "string list" where
  "Object_prototype =
     [''constructor'', ''__proto__'', ''__defineGetter__'', ''__defineSetter__'',
      ''__lookupGetter__'', ''__lookupSetter__'', ''hasOwnProperty'', ''isPrototypeOf'',
      ''propertyIsEnumerable'', ''toLocaleString'', ''toString'', ''valueOf'']"

definition get_property :: "(string \<times> 'a) list \<Rightarrow> string \<Rightarrow> 'a js_value option" where
  \<comment> \<open>\<open>None\<close> is \<open>undefined\<close>\<close>
  "get_property obj key =
     (case map_of obj key of
        Some v \<Rightarrow> Some (Plain v)
      | None \<Rightarrow> if key \<in> set Object_prototype then Some (ProtoMember key) else None)"

text \<open>
  Values that arrive from the client as JSON. A number is the finite value the parser
  yields, held as a rational. The entries of an object are its own properties; none of the
  keys the server reads is a member of \<open>Object.prototype\<close>.
\<close>

datatype json =
    JNull
  | JBool bool
  | JNum rat
  | JStr string
  | JArr "json list"
  | JObj "(string \<times> json) list"

section \<open>Result container (result.ts)\<close>

datatype ('a, 'e) Result = Ok 'a | Err 'e

definition unwrapOr :: "('a, 'e) Result \<Rightarrow> 'a \<Rightarrow> 'a" where
  "unwrapOr result defaultValue = (case result of Ok v \<Rightarrow> v | Err e \<Rightarrow> defaultValue)"

definition mapResult :: "('a, 'e) Result \<Rightarrow> ('a \<Rightarrow> 'b) \<Rightarrow> ('b, 'e) Result" where
  "mapResult result fn = (case result of Ok v \<Rightarrow> Ok (fn v) | Err e \<Rightarrow> Err e)"

section \<open>Awaited calls\<close>

text \<open>
  A provider or the connected client is reached through an awaited call. Such a call may
  change the world outside the server (type \<open>'w\<close>) and either resolves to a value or rejects
  with a thrown value, which the model identifies with the text \<open>String(err)\<close> gives for it.
\<close>

datatype js_error = Thrown (String_of: string)

type_synonym ('a, 'w) promise = "'w \<Rightarrow> (js_error + 'a) \<times> 'w"

definition resolved :: "'a \<Rightarrow> ('a, 'w) promise" where
  "resolved v = (\<lambda>w. (Inr v, w))"

definition rejected :: "js_error \<Rightarrow> ('a, 'w) promise" where
  "rejected err = (\<lambda>w. (Inl err, w))"

section \<open>Provider interfaces and mock providers (providers/provider.ts, providers/mock.ts)\<close>

record CompletionOptions =
  maxTokens :: "js_number option"

record SearchResult =
  title :: string
  url :: string
  snippet :: string
  score :: rat

datatype unit_t = celsius | fahrenheit

datatype WeatherInput = WeatherInput (location: string) (unit: unit_t)

record WeatherData =
  location :: string
  temperature :: int
  unit :: unit_t
  condition :: string
  humidity :: int
  wind_speed :: int
  forecast :: string

type_synonym 'w TextProvider =
  "string \<Rightarrow> CompletionOptions \<Rightarrow> ((string, string) Result, 'w) promise"

type_synonym 'w WebSearchProvider =
  "string \<Rightarrow> int option \<Rightarrow> ((SearchResult list, string) Result, 'w) promise"

type_synonym 'w WeatherProvider =
  "string \<Rightarrow> ((WeatherData js_value, string) Result, 'w) promise"

definition MockTextProvider_complete :: "string \<Rightarrow> CompletionOptions \<Rightarrow> (string, string) Result" where
  "MockTextProvider_complete prompt options =
     (let words = split_ws (toLowerCase prompt);
          topics = join '', '' (slice0 5 words);
          templates =
            [''Based on the analysis of '' @ topics @ '', the key findings suggest a nuanced perspective. The evidence points to several interconnected factors that influence the outcome.'',
             ''Regarding '' @ topics @ '': the current understanding indicates multiple contributing factors. Research suggests that a comprehensive approach yields the best results.'',
             ''The topic of '' @ topics @ '' involves several important considerations. A balanced assessment reveals both strengths and areas for further investigation.''];
          index = length prompt mod length templates
      in Ok (templates ! index))"

definition domains :: "string list" where
  "domains = [''docs.example.com'', ''blog.techsite.com'', ''research.papers.io'',
              ''tutorial.dev'', ''wiki.knowledge.org'']"

definition search_result :: "string \<Rightarrow> string list \<Rightarrow> int \<Rightarrow> SearchResult" where
  \<comment> \<open>the object pushed at index \<open>i\<close>, which is below the number of domains\<close>
  "search_result query words i =
     \<lparr>title = join '' '' (slice0 3 words) @ '' - Result '' @ decimal (i + 1),
      url = ''https://'' @ domains ! nat i @ ''/'' @ join ''-'' words,
      snippet = ''Comprehensive guide about '' @ query
        @ ''. This resource covers the fundamentals and advanced topics related to ''
        @ join '' '' (slice0 2 words) @ ''.'',
      score = 1.0 - of_int i * 0.15\<rparr>"

function search_loop :: "string \<Rightarrow> string list \<Rightarrow> int \<Rightarrow> int \<Rightarrow> SearchResult list \<Rightarrow> SearchResult list" where
  \<comment> \<open>the \<open>for\<close> loop of \<open>search\<close>, from index \<open>i\<close> with \<open>results\<close> collected so far\<close>
  "search_loop query words maxResults i results =
     (if i < min maxResults (int (length domains)) then
        search_loop query words maxResults (i + 1) (results @ [search_result query words i])
      else results)"
  by pat_completeness auto
termination
  by (relation "measure (\<lambda>(query, words, maxResults, i, results).
        nat (min maxResults (int (length domains)) - i))") auto

declare search_loop.simps [simp del]

definition MockWebSearchProvider_search :: "string \<Rightarrow> int option \<Rightarrow> (SearchResult list, string) Result" where
  \<comment> \<open>the parameter default \<open>maxResults = 5\<close> applies when the argument is \<open>undefined\<close>\<close>
  "MockWebSearchProvider_search query maxResults_arg =
     (let maxResults = (case maxResults_arg of None \<Rightarrow> 5 | Some n \<Rightarrow> n);
          words = split_ws (toLowerCase query)
      in Ok (search_loop query words maxResults 0 []))"

definition mockData :: "(string \<times> WeatherData) list" where
  "mockData =
     [(''san francisco'',
       \<lparr>location = ''San Francisco, CA'', temperature = 62, unit = fahrenheit,
        condition = ''Partly Cloudy'', humidity = 72, wind_speed = 12,
        forecast = ''Mild with coastal fog clearing by afternoon''\<rparr>),
      (''new york'',
       \<lparr>location = ''New York, NY'', temperature = 45, unit = fahrenheit,
        condition = ''Clear'', humidity = 55, wind_speed = 8,
        forecast = ''Clear skies with seasonal temperatures''\<rparr>),
      (''london'',
       \<lparr>location = ''London, UK'', temperature = 8, unit = celsius,
        condition = ''Overcast'', humidity = 85, wind_speed = 15,
        forecast = ''Grey skies with chance of light rain''\<rparr>)]"

definition MockWeatherProvider_getWeather :: "string \<Rightarrow> (WeatherData js_value, string) Result" where
  \<comment> \<open>\<open>if (data)\<close>: every own entry and every inherited member is truthy\<close>
  "MockWeatherProvider_getWeather loc =
     (let key = trim (toLowerCase loc);
          data = get_property mockData key
      in case data of
           Some d \<Rightarrow> Ok d
         | None \<Rightarrow>
             Ok (Plain \<lparr>location = loc, temperature = 70, unit = fahrenheit,
                        condition = ''Clear'', humidity = 50, wind_speed = 10,
                        forecast = ''Typical conditions for '' @ loc\<rparr>))"

section \<open>Weather and search tools (tools/weather.ts, tools/web-search.ts)\<close>

datatype SearchInput = SearchInput (query: string) (maxResults: int)

definition webSearch :: "SearchInput \<Rightarrow> 'w WebSearchProvider \<Rightarrow> ((SearchResult list, string) Result, 'w) promise" where
  "webSearch input provider = provider (query input) (Some (maxResults input))"

definition getWeather :: "WeatherInput \<Rightarrow> 'w WeatherProvider \<Rightarrow> ((WeatherData js_value, string) Result, 'w) promise" where
  "getWeather input provider = provider (WeatherInput.location input)"

section \<open>Text analysis tools (tools/text-analysis.ts)\<close>

datatype SummarizeInput = SummarizeInput (text_in: string) (maxLength: int)

datatype SentimentInput = SentimentInput (text_in: string)

datatype EntityInput = EntityInput (text_in: string) (types: "entity_type list")

datatype sentiment_t = positive | negative | neutral | mixed

record SentimentResult =
  sentiment :: sentiment_t
  confidence :: rat
  explanation :: string

record Entity =
  "text" :: string
  type :: entity_type
  confidence :: rat

definition summarize ::
  "js_runtime \<Rightarrow> SummarizeInput \<Rightarrow> 'w TextProvider \<Rightarrow> ((string, string) Result, 'w) promise" where
  "summarize rt input provider =
     (let prompt = ''Summarize the following text in '' @ String_int rt (maxLength input)
            @ '' words or fewer:'' @ [CHR 0x0A, CHR 0x0A] @ SummarizeInput.text_in input
      in provider prompt \<lparr>maxTokens = Some (js_times (maxLength input) 2)\<rparr>)"

definition positiveWords :: "string list" where
  "positiveWords =
     [''good'', ''great'', ''excellent'', ''amazing'', ''wonderful'', ''love'', ''best'',
      ''happy'', ''fantastic'', ''brilliant'', ''outstanding'', ''perfect'']"

definition negativeWords :: "string list" where
  "negativeWords =
     [''bad'', ''terrible'', ''awful'', ''worst'', ''hate'', ''horrible'', ''poor'',
      ''disappointing'', ''failure'', ''broken'', ''useless'', ''wrong'']"

fun count_words :: "string list \<Rightarrow> nat \<times> nat \<Rightarrow> nat \<times> nat" where
  \<comment> \<open>the loop over \<open>words\<close>, carrying \<open>(positiveCount, negativeCount)\<close>\<close>
  "count_words [] (positiveCount, negativeCount) = (positiveCount, negativeCount)"
| "count_words (word # rest) (positiveCount, negativeCount) =
     count_words rest
       (if list_ex (\<lambda>pw. includes_str word pw) positiveWords
        then positiveCount + 1 else positiveCount,
        if list_ex (\<lambda>nw. includes_str word nw) negativeWords
        then negativeCount + 1 else negativeCount)"

definition analyzeSentiment :: "SentimentInput \<Rightarrow> 'p \<Rightarrow> (SentimentResult, string) Result" where
  "analyzeSentiment input provider =
     (let txt = toLowerCase (SentimentInput.text_in input);
          words = split_ws txt;
          (positiveCount, negativeCount) = count_words words (0, 0);
          total = positiveCount + negativeCount;
          (sentiment, confidence, explanation) =
            (if total = 0 then
               (neutral, 0.6, ''No strong sentiment indicators found in the text.'')
             else if positiveCount > 0 \<and> negativeCount > 0 then
               (mixed,
                0.5 + \<bar>of_nat positiveCount - of_nat negativeCount\<bar> / (of_nat total * 2),
                ''Found '' @ digits positiveCount @ '' positive and '' @ digits negativeCount
                  @ '' negative indicators.'')
             else if positiveCount > negativeCount then
               (positive,
                0.6 + min 0.35 (of_nat positiveCount * 0.1),
                ''Strong positive sentiment with '' @ digits positiveCount
                  @ '' positive indicators.'')
             else
               (negative,
                0.6 + min 0.35 (of_nat negativeCount * 0.1),
                ''Negative sentiment detected with '' @ digits negativeCount
                  @ '' negative indicators.''))
      in Ok \<lparr>sentiment = sentiment, confidence = min confidence 1.0,
              explanation = explanation\<rparr>)"

fun push_matches :: "entity_type \<Rightarrow> string list \<Rightarrow> string list \<Rightarrow> Entity list \<Rightarrow> Entity list" where
  \<comment> \<open>the loop over the matches of one pattern, with the set \<open>seen\<close>\<close>
  "push_matches ty [] seen entities = entities"
| "push_matches ty (entityText # rest) seen entities =
     (if toLowerCase entityText \<notin> set seen then
        push_matches ty rest (toLowerCase entityText # seen)
          (entities @ [\<lparr>text = entityText, type = ty, confidence = 0.85\<rparr>])
      else push_matches ty rest seen entities)"

fun extract_loop :: "js_runtime \<Rightarrow> string \<Rightarrow> entity_type list \<Rightarrow> Entity list \<Rightarrow> Entity list" where
  \<comment> \<open>the loop over \<open>input.types\<close>; each of the five types has a pattern\<close>
  "extract_loop rt txt [] entities = entities"
| "extract_loop rt txt (ty # rest) entities =
     extract_loop rt txt rest (push_matches ty (matchAll rt ty txt) [] entities)"

definition extractEntities :: "js_runtime \<Rightarrow> EntityInput \<Rightarrow> 'p \<Rightarrow> (Entity list, string) Result" where
  "extractEntities rt input provider =
     Ok (extract_loop rt (EntityInput.text_in input) (types input) [])"

section \<open>The connected client (sampling and elicitation requests)\<close>

datatype SamplingContent =
    TextContent string
  | ImageContent string string
  | AudioContent string string

datatype CreateMessageRequest =
  CreateMessageRequest (messages: "(string \<times> SamplingContent) list") (maxTokens: js_number)
    (systemPrompt: string)

datatype CreateMessageResult = CreateMessageResult (content: SamplingContent)

text \<open>
  The form a client fills in for an elicitation has fields of primitive type only (the schema
  the tool sends asks for a string, two booleans and a number), so an entry of the returned
  payload is a JSON primitive. Entries may be missing, and the payload itself may be missing
  or \<open>null\<close>.
\<close>

datatype prim = PNull | PBool bool | PNum rat | PStr string

datatype elicit_content =
    ContentAbsent
  | ContentNull
  | ContentForm "(string \<times> prim) list"

datatype ElicitRequest = ElicitRequest (message: string) (requestedSchema: json)

datatype ElicitResult = ElicitResult (action: string) (content: elicit_content)

record 'w Server =
  createMessage :: "CreateMessageRequest \<Rightarrow> (CreateMessageResult, 'w) promise"
  elicitInput :: "ElicitRequest \<Rightarrow> (ElicitResult, 'w) promise"

section \<open>Sampling tool (tools/sampling.ts)\<close>

definition smart_request :: "js_runtime \<Rightarrow> SummarizeInput \<Rightarrow> CreateMessageRequest" where
  "smart_request rt input =
     CreateMessageRequest
       [(''user'', TextContent
          (''Please summarize the following text in approximately ''
            @ String_int rt (maxLength input)
            @ '' words or fewer. Be concise and capture the key points:''
            @ [CHR 0x0A, CHR 0x0A] @ SummarizeInput.text_in input))]
       (js_times (maxLength input) 4)
       ''You are a helpful assistant that creates concise, accurate summaries.''"

definition smartSummarize ::
  "js_runtime \<Rightarrow> SummarizeInput \<Rightarrow> 'w Server \<Rightarrow> ((string, string) Result, 'w) promise" where
  "smartSummarize rt input server = (\<lambda>w.
     case createMessage server (smart_request rt input) w of
       (Inr response, w') \<Rightarrow>
         (case CreateMessageResult.content response of
            TextContent t \<Rightarrow> (Inr (Ok t), w')
          | _ \<Rightarrow> (Inr (Err ''Client returned non-text sampling response''), w'))
     | (Inl err, w') \<Rightarrow> (Inr (Err (''Sampling request failed: '' @ String_of err)), w'))"

section \<open>Elicitation tool (tools/elicitation.ts)\<close>

datatype ConfigureAnalysisInput = ConfigureAnalysisInput (text_in: string)

record AnalysisConfig =
  depth :: prim
  includeSentiment :: bool
  includeEntities :: bool
  maxSummaryWords :: js_number

record ConfigureAnalysisResult =
  action :: string
  config :: "AnalysisConfig option"
  message :: string

definition ANALYSIS_CONFIG_SCHEMA :: json where
  "ANALYSIS_CONFIG_SCHEMA =
     JObj [(''type'', JStr ''object''),
           (''properties'', JObj
              [(''depth'', JObj
                  [(''type'', JStr ''string''),
                   (''enum'', JArr [JStr ''quick'', JStr ''standard'', JStr ''deep'']),
                   (''description'', JStr ''Analysis depth level''),
                   (''default'', JStr ''standard'')]),
               (''includeSentiment'', JObj
                  [(''type'', JStr ''boolean''),
                   (''description'', JStr ''Include sentiment analysis''),
                   (''default'', JBool True)]),
               (''includeEntities'', JObj
                  [(''type'', JStr ''boolean''),
                   (''description'', JStr ''Include entity extraction''),
                   (''default'', JBool True)]),
               (''maxSummaryWords'', JObj
                  [(''type'', JStr ''number''),
                   (''description'', JStr ''Maximum words in summary''),
                   (''default'', JNum 100)])]),
           (''required'', JArr [JStr ''depth'', JStr ''includeSentiment'',
                                JStr ''includeEntities'', JStr ''maxSummaryWords''])]"

definition nullish :: "prim option \<Rightarrow> prim \<Rightarrow> prim" where
  \<comment> \<open>\<open>v ?? d\<close>: the default replaces \<open>undefined\<close> and \<open>null\<close>\<close>
  "nullish v d = (case v of None \<Rightarrow> d | Some PNull \<Rightarrow> d | Some x \<Rightarrow> x)"

definition Boolean_js :: "prim \<Rightarrow> bool" where
  "Boolean_js v =
     (case v of PNull \<Rightarrow> False | PBool b \<Rightarrow> b | PNum r \<Rightarrow> r \<noteq> 0 | PStr s \<Rightarrow> s \<noteq> [])"

definition Number_js :: "js_runtime \<Rightarrow> prim \<Rightarrow> js_number" where
  "Number_js rt v =
     (case v of PNull \<Rightarrow> Num 0 | PBool b \<Rightarrow> Num (if b then 1 else 0) | PNum r \<Rightarrow> Num r
      | PStr s \<Rightarrow> StringToNumber rt s)"

definition String_bool :: "bool \<Rightarrow> string" where
  "String_bool b = (if b then ''true'' else ''false'')"

definition String_prim :: "js_runtime \<Rightarrow> prim \<Rightarrow> string" where
  "String_prim rt v =
     (case v of PNull \<Rightarrow> ''null'' | PBool b \<Rightarrow> String_bool b
      | PNum r \<Rightarrow> NumberToString rt (Num r) | PStr s \<Rightarrow> s)"

definition elicit_request :: "ConfigureAnalysisInput \<Rightarrow> ElicitRequest" where
  "elicit_request input =
     ElicitRequest
       (''Configure analysis options for the provided text (''
          @ digits (length (ConfigureAnalysisInput.text_in input)) @ '' characters):'')
       ANALYSIS_CONFIG_SCHEMA"

definition configureAnalysis ::
  "js_runtime \<Rightarrow> ConfigureAnalysisInput \<Rightarrow> 'w Server \<Rightarrow> ((ConfigureAnalysisResult, string) Result, 'w) promise" where
  "configureAnalysis rt input server = (\<lambda>w.
     case elicitInput server (elicit_request input) w of
       (Inl err, w') \<Rightarrow>
         (Inr (Ok \<lparr>action = ''accept'',
                    config = Some \<lparr>depth = PStr ''standard'', includeSentiment = True,
                                   includeEntities = True, maxSummaryWords = Num 100\<rparr>,
                    message = ''Using default configuration (elicitation not supported by client).''\<rparr>),
          w')
     | (Inr elicitResult, w') \<Rightarrow>
         (case (ElicitResult.action elicitResult = ''accept'', ElicitResult.content elicitResult) of
            (True, ContentForm raw) \<Rightarrow>
              (let cfg = \<lparr>depth = nullish (map_of raw ''depth'') (PStr ''standard''),
                          includeSentiment =
                            Boolean_js (nullish (map_of raw ''includeSentiment'') (PBool True)),
                          includeEntities =
                            Boolean_js (nullish (map_of raw ''includeEntities'') (PBool True)),
                          maxSummaryWords =
                            Number_js rt (nullish (map_of raw ''maxSummaryWords'') (PNum 100))\<rparr>
               in (Inr (Ok \<lparr>action = ''accept'', config = Some cfg,
                             message = ''Analysis configured: depth='' @ String_prim rt (depth cfg)
                               @ '', sentiment='' @ String_bool (includeSentiment cfg)
                               @ '', entities='' @ String_bool (includeEntities cfg)
                               @ '', maxWords='' @ NumberToString rt (maxSummaryWords cfg)\<rparr>),
                   w'))
          | _ \<Rightarrow>
              if ElicitResult.action elicitResult = ''decline'' then
                (Inr (Ok \<lparr>action = ''decline'', config = None,
                           message = ''User declined to configure analysis. Using default settings would be required to proceed.''\<rparr>),
                 w')
              else
                (Inr (Ok \<lparr>action = ''cancel'', config = None,
                           message = ''User cancelled the analysis configuration dialog.''\<rparr>),
                 w')))"

section \<open>Input schemas (the zod declarations of the tools)\<close>

text \<open>
  A schema maps the raw value found at a path (\<open>None\<close> when nothing is there) to the typed
  input or to the list of issues a \<open>ZodError\<close> carries. Issues of all fields are collected.
\<close>

datatype zod_issue_code = invalid_type | too_small | too_big | invalid_enum_value

datatype zod_issue = ZodIssue (code: zod_issue_code) (path: "string list")

type_synonym 'a zod = "string list \<Rightarrow> json option \<Rightarrow> zod_issue list + 'a"

definition z_string :: "string zod" where
  "z_string pth v = (case v of Some (JStr s) \<Rightarrow> Inr s | _ \<Rightarrow> Inl [ZodIssue invalid_type pth])"

definition z_min :: "nat \<Rightarrow> string zod \<Rightarrow> string zod" where
  \<comment> \<open>\<open>.min(n)\<close> on a string schema\<close>
  "z_min n inner pth v =
     (case inner pth v of
        Inl issues \<Rightarrow> Inl issues
      | Inr s \<Rightarrow> if length s < n then Inl [ZodIssue too_small pth] else Inr s)"

datatype number_check = check_int | check_positive | check_min rat | check_max rat

fun check_number :: "string list \<Rightarrow> rat \<Rightarrow> number_check \<Rightarrow> zod_issue list" where
  "check_number pth r check_int = (if r = of_int \<lfloor>r\<rfloor> then [] else [ZodIssue invalid_type pth])"
| "check_number pth r check_positive = (if r > 0 then [] else [ZodIssue too_small pth])"
| "check_number pth r (check_min m) = (if r < m then [ZodIssue too_small pth] else [])"
| "check_number pth r (check_max m) = (if r > m then [ZodIssue too_big pth] else [])"

definition z_number :: "number_check list \<Rightarrow> rat zod" where
  \<comment> \<open>\<open>z.number()\<close> followed by its checks; every check is run\<close>
  "z_number checks pth v =
     (case v of
        Some (JNum r) \<Rightarrow>
          (let issues = concat (map (check_number pth r) checks)
           in if issues = [] then Inr r else Inl issues)
      | _ \<Rightarrow> Inl [ZodIssue invalid_type pth])"

definition z_enum :: "(string \<times> 'a) list \<Rightarrow> 'a zod" where
  \<comment> \<open>\<open>z.enum([...])\<close>; the table gives each literal its typed value\<close>
  "z_enum values pth v =
     (case v of
        Some (JStr s) \<Rightarrow>
          (case map_of values s of
             Some a \<Rightarrow> Inr a
           | None \<Rightarrow> Inl [ZodIssue invalid_enum_value pth])
      | _ \<Rightarrow> Inl [ZodIssue invalid_type pth])"

fun z_elements :: "'a zod \<Rightarrow> string list \<Rightarrow> nat \<Rightarrow> json list \<Rightarrow> zod_issue list \<times> 'a list" where
  "z_elements inner pth i [] = ([], [])"
| "z_elements inner pth i (x # xs) =
     (let (issues, vs) = z_elements inner pth (i + 1) xs
      in case inner (pth @ [digits i]) (Some x) of
           Inl e \<Rightarrow> (e @ issues, vs)
         | Inr a \<Rightarrow> (issues, a # vs))"

definition z_array :: "'a zod \<Rightarrow> 'a list zod" where
  "z_array inner pth v =
     (case v of
        Some (JArr xs) \<Rightarrow>
          (let (issues, vs) = z_elements inner pth 0 xs
           in if issues = [] then Inr vs else Inl issues)
      | _ \<Rightarrow> Inl [ZodIssue invalid_type pth])"

definition z_optional_default :: "json \<Rightarrow> 'a zod \<Rightarrow> 'a zod" where
  \<comment> \<open>\<open>.optional().default(d)\<close>: a missing value is replaced by the default before the
      inner schema sees it; \<open>null\<close> is not missing\<close>
  "z_optional_default d inner pth v =
     inner pth (Some (case v of None \<Rightarrow> d | Some x \<Rightarrow> x))"

definition issues_of :: "zod_issue list + 'a \<Rightarrow> zod_issue list" where
  "issues_of r = (case r of Inl issues \<Rightarrow> issues | Inr a \<Rightarrow> [])"

definition z_object1 :: "string \<Rightarrow> 'a zod \<Rightarrow> json option \<Rightarrow> zod_issue list + 'a" where
  \<comment> \<open>\<open>z.object({k: schema})\<close>; keys outside the shape are dropped\<close>
  "z_object1 k inner v =
     (case v of
        Some (JObj obj) \<Rightarrow> inner [k] (map_of obj k)
      | _ \<Rightarrow> Inl [ZodIssue invalid_type []])"

definition z_object2 ::
  "string \<Rightarrow> 'a zod \<Rightarrow> string \<Rightarrow> 'b zod \<Rightarrow> json option \<Rightarrow> zod_issue list + ('a \<times> 'b)" where
  "z_object2 k1 inner1 k2 inner2 v =
     (case v of
        Some (JObj obj) \<Rightarrow>
          (case (inner1 [k1] (map_of obj k1), inner2 [k2] (map_of obj k2)) of
             (Inr a, Inr b) \<Rightarrow> Inr (a, b)
           | (r1, r2) \<Rightarrow> Inl (issues_of r1 @ issues_of r2))
      | _ \<Rightarrow> Inl [ZodIssue invalid_type []])"

definition SummarizeSchema :: "json option \<Rightarrow> zod_issue list + SummarizeInput" where
  "SummarizeSchema args =
     map_sum id (\<lambda>(t, m). SummarizeInput t \<lfloor>m\<rfloor>)
       (z_object2 ''text'' (z_min 1 z_string)
          ''maxLength'' (z_optional_default (JNum 100) (z_number [check_int, check_positive]))
          args)"

definition SentimentSchema :: "json option \<Rightarrow> zod_issue list + SentimentInput" where
  "SentimentSchema args = map_sum id SentimentInput (z_object1 ''text'' (z_min 1 z_string) args)"

definition entity_types :: "(string \<times> entity_type) list" where
  "entity_types =
     [(''person'', entity_person), (''organization'', entity_organization),
      (''location'', entity_location), (''date'', entity_date),
      (''technology'', entity_technology)]"

definition EntitySchema :: "json option \<Rightarrow> zod_issue list + EntityInput" where
  "EntitySchema args =
     map_sum id (\<lambda>(t, ts). EntityInput t ts)
       (z_object2 ''text'' (z_min 1 z_string)
          ''types'' (z_optional_default
                       (JArr [JStr ''person'', JStr ''organization'', JStr ''location''])
                       (z_array (z_enum entity_types)))
          args)"

definition SearchSchema :: "json option \<Rightarrow> zod_issue list + SearchInput" where
  "SearchSchema args =
     map_sum id (\<lambda>(q, m). SearchInput q \<lfloor>m\<rfloor>)
       (z_object2 ''query'' (z_min 1 z_string)
          ''maxResults'' (z_optional_default (JNum 5)
                            (z_number [check_int, check_min 1, check_max 20]))
          args)"

definition WeatherSchema :: "json option \<Rightarrow> zod_issue list + WeatherInput" where
  "WeatherSchema args =
     map_sum id (\<lambda>(l, u). WeatherInput l u)
       (z_object2 ''location'' (z_min 1 z_string)
          ''unit'' (z_optional_default (JStr ''fahrenheit'')
                      (z_enum [(''celsius'', celsius), (''fahrenheit'', fahrenheit)]))
          args)"

definition SmartSummarizeSchema :: "json option \<Rightarrow> zod_issue list + SummarizeInput" where
  "SmartSummarizeSchema args =
     map_sum id (\<lambda>(t, m). SummarizeInput t \<lfloor>m\<rfloor>)
       (z_object2 ''text'' (z_min 1 z_string)
          ''maxLength'' (z_optional_default (JNum 150) (z_number [check_int, check_positive]))
          args)"

definition ConfigureAnalysisSchema :: "json option \<Rightarrow> zod_issue list + ConfigureAnalysisInput" where
  "ConfigureAnalysisSchema args =
     map_sum id ConfigureAnalysisInput (z_object1 ''text'' (z_min 1 z_string) args)"

section \<open>Server: the tool-call handler (server.ts)\<close>

record 'w Providers =
  "text" :: "'w TextProvider"
  search :: "'w WebSearchProvider"
  weather :: "'w WeatherProvider"

definition mockProviders :: "'w Providers" where
  \<comment> \<open>what \<open>createProviders\<close> builds in mock and hybrid mode, and in production mode
      without API keys\<close>
  "mockProviders =
     \<lparr>text = (\<lambda>prompt options. resolved (MockTextProvider_complete prompt options)),
      search = (\<lambda>query maxResults. resolved (MockWebSearchProvider_search query maxResults)),
      weather = (\<lambda>loc. resolved (MockWeatherProvider_getWeather loc))\<rparr>"

definition tool_names :: "string list" where
  \<comment> \<open>the names of the tools the server lists\<close>
  "tool_names =
     [''summarize'', ''analyze_sentiment'', ''extract_entities'', ''brave_web_search'',
      ''get_weather'', ''smart_summarize'', ''configure_analysis'']"

text \<open>
  A content item is \<open>{type: "text", text: ...}\<close>. Where the text is
  \<open>JSON.stringify(value, null, 2)\<close> the item keeps the value that is serialised.
\<close>

datatype tool_value =
    SentimentValue SentimentResult
  | EntitiesValue "Entity list"
  | SearchValue "SearchResult list"
  | WeatherValue "WeatherData js_value"
  | ConfigValue ConfigureAnalysisResult

datatype content_item = Text string | Json tool_value

datatype structured =
    StructuredSummary string
  | StructuredSentiment SentimentResult
  | StructuredEntities "Entity list"

record CallToolResult =
  content :: "content_item list"
  structuredContent :: "structured option"
  isError :: bool  \<comment> \<open>\<open>False\<close> when the field is left out\<close>

text \<open>
  The handler is an \<open>async\<close> function without a \<open>try\<close>: it resolves to a response, or
  rejects with the \<open>ZodError\<close> of \<open>parse\<close> or with what a tool threw.
\<close>

datatype dispatch_error = ZodError "zod_issue list" | Uncaught js_error

definition error_response :: "string \<Rightarrow> CallToolResult" where
  "error_response e =
     \<lparr>content = [Text (''Error: '' @ e)], structuredContent = None, isError = True\<rparr>"

definition run_tool ::
  "(json option \<Rightarrow> zod_issue list + 'i) \<Rightarrow> ('i \<Rightarrow> (('v, string) Result, 'w) promise)
     \<Rightarrow> ('v \<Rightarrow> CallToolResult) \<Rightarrow> json option \<Rightarrow> 'w \<Rightarrow> (dispatch_error + CallToolResult) \<times> 'w" where
  \<comment> \<open>the body shared by the cases of the \<open>switch\<close>: parse, await the tool, build the response\<close>
  "run_tool schema tool respond args = (\<lambda>w.
     case schema args of
       Inl issues \<Rightarrow> (Inl (ZodError issues), w)
     | Inr input \<Rightarrow>
         (case tool input w of
            (Inl err, w') \<Rightarrow> (Inl (Uncaught err), w')
          | (Inr (Err e), w') \<Rightarrow> (Inr (error_response e), w')
          | (Inr (Ok v), w') \<Rightarrow> (Inr (respond v), w')))"

definition callTool ::
  "js_runtime \<Rightarrow> 'w Providers \<Rightarrow> 'w Server \<Rightarrow> string \<Rightarrow> json option
     \<Rightarrow> 'w \<Rightarrow> (dispatch_error + CallToolResult) \<times> 'w" where
  "callTool rt providers server name args =
     (if name = ''summarize'' then
        run_tool SummarizeSchema (\<lambda>input. summarize rt input (text providers))
          (\<lambda>v. \<lparr>content = [Text v], structuredContent = Some (StructuredSummary v),
                 isError = False\<rparr>) args
      else if name = ''analyze_sentiment'' then
        run_tool SentimentSchema (\<lambda>input. resolved (analyzeSentiment input (text providers)))
          (\<lambda>v. \<lparr>content = [Json (SentimentValue v)],
                 structuredContent = Some (StructuredSentiment v), isError = False\<rparr>) args
      else if name = ''extract_entities'' then
        run_tool EntitySchema (\<lambda>input. resolved (extractEntities rt input (text providers)))
          (\<lambda>v. \<lparr>content = [Json (EntitiesValue v)],
                 structuredContent = Some (StructuredEntities v), isError = False\<rparr>) args
      else if name = ''brave_web_search'' then
        run_tool SearchSchema (\<lambda>input. webSearch input (search providers))
          (\<lambda>v. \<lparr>content = [Json (SearchValue v)], structuredContent = None,
                 isError = False\<rparr>) args
      else if name = ''get_weather'' then
        run_tool WeatherSchema (\<lambda>input. getWeather input (weather providers))
          (\<lambda>v. \<lparr>content = [Json (WeatherValue v)], structuredContent = None,
                 isError = False\<rparr>) args
      else if name = ''smart_summarize'' then
        run_tool SmartSummarizeSchema (\<lambda>input. smartSummarize rt input server)
          (\<lambda>v. \<lparr>content = [Text v], structuredContent = None, isError = False\<rparr>) args
      else if name = ''configure_analysis'' then
        run_tool ConfigureAnalysisSchema (\<lambda>input. configureAnalysis rt input server)
          (\<lambda>v. \<lparr>content = [Json (ConfigValue v)], structuredContent = None,
                 isError = False\<rparr>) args
      else
        (\<lambda>w. (Inr \<lparr>content = [Text (''Unknown tool: '' @ name)], structuredContent = None,
                     isError = True\<rparr>, w)))"

section \<open>What the declared schemas ask of the raw arguments\<close>

text \<open>
  The declarations read as a table: per tool, its fields with their JSON type, whether they
  are required, and their constraints. Raw arguments violate a declaration when they are not
  an object, when a required field is missing, or when a field that is present has the wrong
  type or breaks a constraint.
\<close>

datatype json_type = string_type | number_type | array_type

datatype constraint =
    MinLength nat
  | Integer
  | Positive
  | AtLeast rat
  | AtMost rat
  | OneOf "string list"
  | EachOneOf "string list"

record field_decl =
  field_name :: string
  jtype :: json_type
  required :: bool
  constraints :: "constraint list"

fun has_type :: "json_type \<Rightarrow> json \<Rightarrow> bool" where
  "has_type string_type (JStr s) = True"
| "has_type number_type (JNum r) = True"
| "has_type array_type (JArr xs) = True"
| "has_type t v = False"

fun breaks :: "constraint \<Rightarrow> json \<Rightarrow> bool" where
  "breaks (MinLength n) (JStr s) = (length s < n)"
| "breaks Integer (JNum r) = (r \<noteq> of_int \<lfloor>r\<rfloor>)"
| "breaks Positive (JNum r) = (r \<le> 0)"
| "breaks (AtLeast m) (JNum r) = (r < m)"
| "breaks (AtMost m) (JNum r) = (m < r)"
| "breaks (OneOf names) (JStr s) = (s \<notin> set names)"
| "breaks (EachOneOf names) (JArr xs) =
     list_ex (\<lambda>x. case x of JStr s \<Rightarrow> s \<notin> set names | _ \<Rightarrow> True) xs"
| "breaks c v = False"

definition field_violation :: "(string \<times> json) list \<Rightarrow> field_decl \<Rightarrow> bool" where
  "field_violation obj f =
     (case map_of obj (field_name f) of
        None \<Rightarrow> required f
      | Some v \<Rightarrow> (if has_type (jtype f) v then list_ex (\<lambda>c. breaks c v) (constraints f) else True))"

definition violates :: "field_decl list \<Rightarrow> json option \<Rightarrow> bool" where
  "violates decl args =
     (case args of
        Some (JObj obj) \<Rightarrow> list_ex (field_violation obj) decl
      | _ \<Rightarrow> True)"

definition text_field :: "string \<Rightarrow> field_decl" where
  "text_field k = \<lparr>field_name = k, jtype = string_type, required = True, constraints = [MinLength 1]\<rparr>"

definition maxLength_field :: field_decl where
  "maxLength_field =
     \<lparr>field_name = ''maxLength'', jtype = number_type, required = False,
      constraints = [Integer, Positive]\<rparr>"

definition declared_schema :: "string \<Rightarrow> field_decl list option" where
  "declared_schema tool =
     map_of
       [(''summarize'', [text_field ''text'', maxLength_field]),
        (''analyze_sentiment'', [text_field ''text'']),
        (''extract_entities'',
           [text_field ''text'',
            \<lparr>field_name = ''types'', jtype = array_type, required = False,
             constraints = [EachOneOf [''person'', ''organization'', ''location'', ''date'',
                                       ''technology'']]\<rparr>]),
        (''brave_web_search'',
           [text_field ''query'',
            \<lparr>field_name = ''maxResults'', jtype = number_type, required = False,
             constraints = [Integer, AtLeast 1, AtMost 20]\<rparr>]),
        (''get_weather'',
           [text_field ''location'',
            \<lparr>field_name = ''unit'', jtype = string_type, required = False,
             constraints = [OneOf [''celsius'', ''fahrenheit'']]\<rparr>]),
        (''smart_summarize'', [text_field ''text'', maxLength_field]),
        (''configure_analysis'', [text_field ''text''])]
       tool"

section \<open>Properties of the sentiment tool\<close>

lemma count_words_filter:
  "count_words ws (p, n) =
     (p + length (filter (\<lambda>w. list_ex (includes_str w) positiveWords) ws),
      n + length (filter (\<lambda>w. list_ex (includes_str w) negativeWords) ws))"
  by (induction ws arbitrary: p n) auto

lemma count_words_none:
  "list_all (\<lambda>w. \<not> list_ex (includes_str w) positiveWords \<and> \<not> list_ex (includes_str w) negativeWords) ws
   \<Longrightarrow> count_words ws (0, 0) = (0, 0)"
  by (induction ws) (auto simp: count_words_filter)

lemma mixed_bound:
  fixes p n :: nat
  assumes "0 < p" "0 < n"
  shows "\<bar>(of_nat p :: rat) - of_nat n\<bar> / (of_nat (p + n) * 2) \<le> 1 / 2"
proof -
  have "\<bar>(of_nat p :: rat) - of_nat n\<bar> \<le> of_nat (p + n)"
    by (simp add: abs_le_iff)
  moreover have "(0::rat) < of_nat (p + n)" using assms by simp
  ultimately show ?thesis
    by (simp add: field_simps)
qed

text \<open>
  C5. For every input text \<open>analyzeSentiment\<close> succeeds and the confidence of its result
  lies between 0 and 1 inclusive; when no word of the lower-cased text contains a positive or
  a negative word, the sentiment is \<open>neutral\<close> and the confidence is 0.6.
\<close>

theorem analyze_sentiment_confidence:
  "\<exists>r. analyzeSentiment (SentimentInput txt) provider = Ok r
       \<and> 0 \<le> SentimentResult.confidence r \<and> SentimentResult.confidence r \<le> 1
       \<and> (list_all (\<lambda>w. \<not> list_ex (includes_str w) positiveWords
                         \<and> \<not> list_ex (includes_str w) negativeWords)
              (split_ws (toLowerCase txt))
            \<longrightarrow> sentiment r = neutral \<and> SentimentResult.confidence r = 0.6)"
proof -
  obtain p n where pn: "count_words (split_ws (toLowerCase txt)) (0, 0) = (p, n)"
    by (cases "count_words (split_ws (toLowerCase txt)) (0, 0)")
  have zero: "list_all (\<lambda>w. \<not> list_ex (includes_str w) positiveWords
                         \<and> \<not> list_ex (includes_str w) negativeWords)
              (split_ws (toLowerCase txt)) \<Longrightarrow> p = 0 \<and> n = 0"
    using count_words_none pn by fastforce
  show ?thesis
  proof (cases "p + n = 0")
    case True
    then show ?thesis using pn by (simp add: analyzeSentiment_def)
  next
    case False
    note nz = this
    show ?thesis
    proof (cases "0 < p \<and> 0 < n")
      case True
      then have b: "\<bar>(of_nat p :: rat) - of_nat n\<bar> / (of_nat (p + n) * 2) \<le> 1 / 2"
        using mixed_bound by blast
      have nn: "0 \<le> \<bar>(of_nat p :: rat) - of_nat n\<bar> / (of_nat (p + n) * 2)" by simp
      have nl: "\<not> list_all (\<lambda>w. \<not> list_ex (includes_str w) positiveWords
                         \<and> \<not> list_ex (includes_str w) negativeWords)
              (split_ws (toLowerCase txt))"
        using zero nz by blast
      show ?thesis using pn True nz b nn
        by (simp add: analyzeSentiment_def min_def nl)
    next
      case False
      have nl: "\<not> list_all (\<lambda>w. \<not> list_ex (includes_str w) positiveWords
                         \<and> \<not> list_ex (includes_str w) negativeWords)
              (split_ws (toLowerCase txt))"
        using zero nz by blast
      from False show ?thesis using pn nz
        by (auto simp: analyzeSentiment_def min_def nl)
    qed
  qed
qed

theorem analyze_sentiment_confidence_witness:
  "list_all (\<lambda>w. \<not> list_ex (includes_str w) positiveWords
                         \<and> \<not> list_ex (includes_str w) negativeWords)
              (split_ws (toLowerCase ''Hello world''))
   \<and> (\<exists>r. analyzeSentiment (SentimentInput ''Hello world'') () = Ok r
       \<and> 0 \<le> SentimentResult.confidence r \<and> SentimentResult.confidence r \<le> 1
       \<and> sentiment r = neutral \<and> SentimentResult.confidence r = 0.6)"
proof -
  have h: "list_all (\<lambda>w. \<not> list_ex (includes_str w) positiveWords
                         \<and> \<not> list_ex (includes_str w) negativeWords)
              (split_ws (toLowerCase ''Hello world''))"
    by code_simp
  show ?thesis
    using h analyze_sentiment_confidence [of "''Hello world''" "()"] by blast
qed

section \<open>Properties of the mock web search\<close>

lemma search_loop_unfold:
  "search_loop q ws n i acc = acc @ map (search_result q ws) [i..min n (int (length domains)) - 1]"
proof (induction q ws n i acc rule: search_loop.induct)
  case (1 q ws n i acc)
  let ?m = "min n (int (length domains))"
  show ?case
  proof (cases "i < ?m")
    case True
    from True have "i \<le> ?m - 1" by linarith
    then have up: "[i..?m - 1] = i # [i + 1..?m - 1]"
      by (rule upto_rec1)
    have "search_loop q ws n i acc = search_loop q ws n (i + 1) (acc @ [search_result q ws i])"
      using True by (subst search_loop.simps) (simp only: if_True)
    also have "\<dots> = (acc @ [search_result q ws i]) @ map (search_result q ws) [i + 1..?m - 1]"
      by (rule "1.IH" [OF True])
    finally show ?thesis by (simp only: up list.map append_assoc append.simps)
  next
    case False
    then have "?m - 1 < i" by linarith
    then have "[i..?m - 1] = []" by simp
    moreover have "search_loop q ws n i acc = acc"
      using False by (subst search_loop.simps) (simp only: if_False)
    ultimately show ?thesis by simp
  qed
qed

lemma domains_length: "int (length domains) = 5"
  by (simp add: domains_def)

lemma mock_search_results:
  "MockWebSearchProvider_search q (Some n) =
     Ok (map (search_result q (split_ws (toLowerCase q))) [0..min n 5 - 1])"
  by (simp add: MockWebSearchProvider_search_def search_loop_unfold domains_length)

text \<open>
  C6. For every query and every \<open>maxResults = n\<close> within the bound of the schema
  (1 to 20), the mock web search succeeds with exactly \<open>min n 5\<close> results, five being the
  number of placeholder domains; the score of result \<open>i\<close> is \<open>1.0 - i * 0.15\<close>, so the
  scores decrease strictly with the index.
\<close>

theorem mock_search_count_and_scores:
  assumes "1 \<le> n" and "n \<le> 20"
  shows "\<exists>results.
           webSearch (SearchInput q n) (search mockProviders) w = (Inr (Ok results), w)
         \<and> int (length results) = min n (int (length domains))
         \<and> (\<forall>i < length results. score (results ! i) = 1.0 - of_nat i * 0.15)
         \<and> (\<forall>i j. i < j \<and> j < length results \<longrightarrow> score (results ! j) < score (results ! i))"
proof -
  let ?rs = "map (search_result q (split_ws (toLowerCase q))) [0..min n 5 - 1]"
  have run: "webSearch (SearchInput q n) (search mockProviders) w = (Inr (Ok ?rs), w)"
    by (simp add: webSearch_def mockProviders_def resolved_def mock_search_results)
  have len: "int (length ?rs) = min n 5" using assms by simp
  have sc: "score (?rs ! i) = 1.0 - of_nat i * 0.15" if "i < length ?rs" for i
  proof -
    from that have "0 + int i \<le> min n 5 - 1" by (simp add: min_def split: if_splits)
    then have "[0..min n 5 - 1] ! i = 0 + int i" by (rule nth_upto)
    then show ?thesis using that by (simp add: search_result_def)
  qed
  have dec: "score (?rs ! j) < score (?rs ! i)" if "i < j" "j < length ?rs" for i j
  proof -
    from that have "i < length ?rs" by simp
    then show ?thesis using sc [of i] sc [OF that(2)] that(1) by simp
  qed
  show ?thesis using run len sc dec by (intro exI [of _ ?rs]) (simp add: domains_length)
qed

theorem mock_search_count_and_scores_witness:
  "(1::int) \<le> 3 \<and> (3::int) \<le> 20
   \<and> (\<exists>results.
           webSearch (SearchInput ''MCP protocol'' 3) (search mockProviders) () = (Inr (Ok results), ())
         \<and> length results = 3
         \<and> map score results = [1, 0.85, 0.7])"
proof -
  have run: "webSearch (SearchInput ''MCP protocol'' 3) (search mockProviders) ()
      = (Inr (Ok (map (search_result ''MCP protocol'' (split_ws (toLowerCase ''MCP protocol''))) [0, 1, 2])), ())"
    by (simp add: webSearch_def mockProviders_def resolved_def mock_search_results upto_rec1)
  have "\<exists>results.
           webSearch (SearchInput ''MCP protocol'' 3) (search mockProviders) () = (Inr (Ok results), ())
         \<and> int (length results) = min 3 (int (length domains))"
    using mock_search_count_and_scores [of 3 "''MCP protocol''" "()"] by auto
  then show ?thesis using run by (auto simp: search_result_def)
qed

section \<open>Substrings\<close>

lemma startsWith_refl: "startsWith s s"
  by (induction s) auto

lemma includes_str_refl: "includes_str s s"
  by (cases s) (auto simp: startsWith_refl)

lemma includes_str_append: "includes_str (p @ s) s"
  by (induction p) (auto simp: includes_str_refl)

section \<open>Properties of the weather tool\<close>

lemma mock_weather_known_key:
  "map_of mockData (trim (toLowerCase loc)) = Some d \<Longrightarrow>
   MockWeatherProvider_getWeather loc = Ok (Plain d)"
  by (simp add: MockWeatherProvider_getWeather_def get_property_def)

lemma mock_weather_unknown_key:
  "map_of mockData (trim (toLowerCase loc)) = None \<Longrightarrow>
   trim (toLowerCase loc) \<notin> set Object_prototype \<Longrightarrow>
   \<exists>d. MockWeatherProvider_getWeather loc = Ok (Plain d) \<and> location d = loc"
  by (simp add: MockWeatherProvider_getWeather_def get_property_def)

lemma mock_weather_san_francisco:
  "\<exists>d. MockWeatherProvider_getWeather ''  San FRANCISCO '' = Ok (Plain d) \<and> temperature d = 62"
proof -
  have "map_of mockData (trim (toLowerCase ''  San FRANCISCO '')) = map_of mockData ''san francisco''"
    by code_simp
  then show ?thesis
    by (simp add: MockWeatherProvider_getWeather_def get_property_def mockData_def)
qed

text \<open>
  C7. A location whose lower-cased, trimmed form is a key of the table gets that key's canned
  reading (\<open>mock_weather_known_key\<close>), and any other location gets a reading that echoes
  it (\<open>mock_weather_unknown_key\<close>), except when that form names a member of
  \<open>Object.prototype\<close>. The location \<open>constructor\<close> is not in the table, yet the provider
  returns the inherited member and no reading; the tool call passes it on as a success.
\<close>

theorem mock_weather_inherited_key:
  "map_of mockData (trim (toLowerCase ''constructor'')) = None
   \<and> MockWeatherProvider_getWeather ''constructor'' = Ok (ProtoMember ''constructor'')
   \<and> callTool rt mockProviders srv ''get_weather''
         (Some (JObj [(''location'', JStr ''constructor'')])) w
       = (Inr \<lparr>content = [Json (WeatherValue (ProtoMember ''constructor''))],
                structuredContent = None, isError = False\<rparr>, w)"
proof -
  have k: "trim (toLowerCase ''constructor'') = ''constructor''" by code_simp
  have m: "map_of mockData ''constructor'' = None" by (simp add: mockData_def)
  have g: "MockWeatherProvider_getWeather ''constructor'' = Ok (ProtoMember ''constructor'')"
    by (simp add: MockWeatherProvider_getWeather_def get_property_def k m Object_prototype_def)
  have s: "WeatherSchema (Some (JObj [(''location'', JStr ''constructor'')]))
             = Inr (WeatherInput ''constructor'' fahrenheit)"
    by (simp add: WeatherSchema_def z_object2_def z_min_def z_string_def z_optional_default_def
        z_enum_def)
  show ?thesis
    by (simp add: k m g callTool_def run_tool_def s getWeather_def mockProviders_def resolved_def)
qed

lemma weather_schema_unit:
  "WeatherSchema (Some (JObj [(''location'', JStr loc), (''unit'', JStr u)]))
   = (if loc = [] then
        (if u = ''celsius'' \<or> u = ''fahrenheit'' then Inl [ZodIssue too_small [''location'']]
         else Inl [ZodIssue too_small [''location''], ZodIssue invalid_enum_value [''unit'']])
      else if u = ''celsius'' then Inr (WeatherInput loc celsius)
      else if u = ''fahrenheit'' then Inr (WeatherInput loc fahrenheit)
      else Inl [ZodIssue invalid_enum_value [''unit'']])"
  by (simp add: WeatherSchema_def z_object2_def z_min_def z_string_def z_optional_default_def
        z_enum_def issues_of_def)

text \<open>
  C9. The result of \<open>getWeather\<close> does not depend on the \<open>unit\<close> argument: for every
  location, every weather provider and every state of the world, the calls with
  \<open>celsius\<close> and with \<open>fahrenheit\<close> give the same result, also through the tool-call
  handler; the mock's entry for London reports \<open>celsius\<close> whichever unit is requested.
\<close>

theorem get_weather_ignores_unit:
  "getWeather (WeatherInput loc celsius) provider w
     = getWeather (WeatherInput loc fahrenheit) provider w
   \<and> callTool rt providers srv ''get_weather''
         (Some (JObj [(''location'', JStr loc), (''unit'', JStr ''celsius'')])) w
     = callTool rt providers srv ''get_weather''
         (Some (JObj [(''location'', JStr loc), (''unit'', JStr ''fahrenheit'')])) w
   \<and> (\<exists>d. getWeather (WeatherInput ''London'' u) (weather mockProviders) w
              = (Inr (Ok (Plain d)), w) \<and> unit d = celsius)"
proof -
  have a: "getWeather (WeatherInput loc celsius) provider w
     = getWeather (WeatherInput loc fahrenheit) provider w"
    by (simp add: getWeather_def)
  have b: "callTool rt providers srv ''get_weather''
         (Some (JObj [(''location'', JStr loc), (''unit'', JStr ''celsius'')])) w
     = callTool rt providers srv ''get_weather''
         (Some (JObj [(''location'', JStr loc), (''unit'', JStr ''fahrenheit'')])) w"
    by (simp add: callTool_def run_tool_def weather_schema_unit getWeather_def)
  have k: "trim (toLowerCase ''London'') = ''london''" by code_simp
  have c: "\<exists>d. getWeather (WeatherInput ''London'' u) (weather mockProviders) w
              = (Inr (Ok (Plain d)), w) \<and> unit d = celsius"
    by (simp add: getWeather_def mockProviders_def resolved_def MockWeatherProvider_getWeather_def
        k get_property_def mockData_def)
  show ?thesis using a b c by blast
qed

section \<open>Properties of the sampling tool\<close>

text \<open>
  C4. For every input and every answer of the client to the one sampling request
  \<open>smartSummarize\<close> sends: a text payload gives a success carrying that text unchanged; a
  payload of another type gives a failure whose message contains \<open>non-text\<close>; a request
  that raises gives a failure whose message contains the text of the fault.
\<close>

theorem smart_summarize_outcomes:
  "(createMessage srv (smart_request rt input) w = (Inr (CreateMessageResult (TextContent t)), w')
      \<longrightarrow> smartSummarize rt input srv w = (Inr (Ok t), w'))
   \<and> (createMessage srv (smart_request rt input) w = (Inr (CreateMessageResult c), w')
        \<and> (\<forall>t. c \<noteq> TextContent t)
      \<longrightarrow> (\<exists>msg. smartSummarize rt input srv w = (Inr (Err msg), w')
                 \<and> includes_str msg ''non-text''))
   \<and> (createMessage srv (smart_request rt input) w = (Inl err, w')
      \<longrightarrow> (\<exists>msg. smartSummarize rt input srv w = (Inr (Err msg), w')
                 \<and> includes_str msg (String_of err)))"
proof -
  have nt: "includes_str ''Client returned non-text sampling response'' ''non-text''"
    by code_simp
  have text_case: "smartSummarize rt input srv w = (Inr (Ok t), w')"
    if "createMessage srv (smart_request rt input) w = (Inr (CreateMessageResult (TextContent t)), w')"
    using that by (simp add: smartSummarize_def)
  have other_case:
    "smartSummarize rt input srv w = (Inr (Err ''Client returned non-text sampling response''), w')"
    if "createMessage srv (smart_request rt input) w = (Inr (CreateMessageResult c), w')"
      and "\<forall>t. c \<noteq> TextContent t"
    using that by (cases c) (simp_all add: smartSummarize_def)
  have raise_case:
    "smartSummarize rt input srv w = (Inr (Err (''Sampling request failed: '' @ String_of err)), w')"
    if "createMessage srv (smart_request rt input) w = (Inl err, w')"
    using that by (simp add: smartSummarize_def)
  have named: "includes_str (''Sampling request failed: '' @ String_of err) (String_of err)"
    by (rule includes_str_append)
  show ?thesis
    using text_case other_case raise_case nt named by blast
qed

theorem smart_summarize_outcomes_witness:
  "smartSummarize
       \<lparr>matchAll = (\<lambda>ty s. []), StringToNumber = (\<lambda>s. NaN), NumberToString = (\<lambda>n. ''NaN'')\<rparr>
       (SummarizeInput ''Anthropic builds AI safely.'' 50)
       \<lparr>createMessage = (\<lambda>req. resolved (CreateMessageResult (TextContent ''AI safety summary.''))),
        elicitInput = (\<lambda>req. rejected (Thrown ''Error: unsupported''))\<rparr> ()
     = (Inr (Ok ''AI safety summary.''), ())
   \<and> (\<exists>msg. smartSummarize
       \<lparr>matchAll = (\<lambda>ty s. []), StringToNumber = (\<lambda>s. NaN), NumberToString = (\<lambda>n. ''NaN'')\<rparr>
       (SummarizeInput ''Text here.'' 50)
          \<lparr>createMessage = (\<lambda>req. resolved (CreateMessageResult (ImageContent ''base64data'' ''image/png''))),
           elicitInput = (\<lambda>req. rejected (Thrown ''Error: unsupported''))\<rparr> ()
        = (Inr (Err msg), ()) \<and> includes_str msg ''non-text'')
   \<and> (\<exists>msg. smartSummarize
       \<lparr>matchAll = (\<lambda>ty s. []), StringToNumber = (\<lambda>s. NaN), NumberToString = (\<lambda>n. ''NaN'')\<rparr>
       (SummarizeInput ''Some text.'' 50)
          \<lparr>createMessage = (\<lambda>req. rejected (Thrown ''Error: Client does not support sampling'')),
           elicitInput = (\<lambda>req. rejected (Thrown ''Error: unsupported''))\<rparr> ()
        = (Inr (Err msg), ()) \<and> includes_str msg ''Error: Client does not support sampling'')"
  using
    smart_summarize_outcomes [where
      rt = "\<lparr>matchAll = (\<lambda>ty s. []), StringToNumber = (\<lambda>s. NaN), NumberToString = (\<lambda>n. ''NaN'')\<rparr>" and
      srv = "\<lparr>createMessage = (\<lambda>req. resolved (CreateMessageResult (TextContent ''AI safety summary.''))),
        elicitInput = (\<lambda>req. rejected (Thrown ''Error: unsupported''))\<rparr>"
      and input = "SummarizeInput ''Anthropic builds AI safely.'' 50" and w = "()"
      and t = "''AI safety summary.''" and w' = "()"]
    smart_summarize_outcomes [where
      rt = "\<lparr>matchAll = (\<lambda>ty s. []), StringToNumber = (\<lambda>s. NaN), NumberToString = (\<lambda>n. ''NaN'')\<rparr>" and
      srv = "\<lparr>createMessage = (\<lambda>req. resolved (CreateMessageResult (ImageContent ''base64data'' ''image/png''))),
           elicitInput = (\<lambda>req. rejected (Thrown ''Error: unsupported''))\<rparr>"
      and input = "SummarizeInput ''Text here.'' 50" and w = "()" and w' = "()"
      and c = "ImageContent ''base64data'' ''image/png''"]
    smart_summarize_outcomes [where
      rt = "\<lparr>matchAll = (\<lambda>ty s. []), StringToNumber = (\<lambda>s. NaN), NumberToString = (\<lambda>n. ''NaN'')\<rparr>" and
      srv = "\<lparr>createMessage = (\<lambda>req. rejected (Thrown ''Error: Client does not support sampling'')),
           elicitInput = (\<lambda>req. rejected (Thrown ''Error: unsupported''))\<rparr>"
      and input = "SummarizeInput ''Some text.'' 50" and w = "()" and w' = "()"
      and err = "Thrown ''Error: Client does not support sampling''"]
  by (simp add: resolved_def rejected_def)

section \<open>Properties of the elicitation tool\<close>

lemma configure_raise:
  "elicitInput srv (elicit_request input) w = (Inl err, w') \<Longrightarrow>
   configureAnalysis rt input srv w =
     (Inr (Ok \<lparr>action = ''accept'',
                config = Some \<lparr>depth = PStr ''standard'', includeSentiment = True,
                               includeEntities = True, maxSummaryWords = Num 100\<rparr>,
                message = ''Using default configuration (elicitation not supported by client).''\<rparr>),
      w')"
  by (simp add: configureAnalysis_def)

lemma configure_decline:
  "elicitInput srv (elicit_request input) w = (Inr (ElicitResult ''decline'' c), w') \<Longrightarrow>
   configureAnalysis rt input srv w =
     (Inr (Ok \<lparr>action = ''decline'', config = None,
                message = ''User declined to configure analysis. Using default settings would be required to proceed.''\<rparr>),
      w')"
  by (simp add: configureAnalysis_def split: elicit_content.splits)

lemma configure_cancel:
  "elicitInput srv (elicit_request input) w = (Inr (ElicitResult ''cancel'' c), w') \<Longrightarrow>
   configureAnalysis rt input srv w =
     (Inr (Ok \<lparr>action = ''cancel'', config = None,
                message = ''User cancelled the analysis configuration dialog.''\<rparr>),
      w')"
  by (simp add: configureAnalysis_def split: elicit_content.splits)

lemma configure_success:
  "\<exists>r w'. configureAnalysis rt input srv w = (Inr (Ok r), w')"
proof (cases "elicitInput srv (elicit_request input) w")
  case (Pair res w')
  show ?thesis
  proof (cases res)
    case (Inl err)
    with Pair show ?thesis by (simp add: configureAnalysis_def)
  next
    case (Inr er)
    obtain a c where er: "er = ElicitResult a c" by (cases er)
    show ?thesis
      using Pair Inr er
      by (cases c) (auto simp: configureAnalysis_def Let_def split: bool.splits)
  qed
qed

text \<open>
  C3. \<open>configureAnalysis\<close> returns a success for every answer of the client. When the
  elicitation request raises, the success has action \<open>accept\<close>, the default configuration
  (depth \<open>standard\<close>, both flags true, 100 words) and a message that contains
  \<open>default\<close>; a \<open>decline\<close> answer gives a success with action \<open>decline\<close> and no
  configuration; a \<open>cancel\<close> answer gives a success with action \<open>cancel\<close> and no
  configuration.
\<close>

theorem configure_analysis_always_succeeds:
  "(\<exists>r w'. configureAnalysis rt input srv w = (Inr (Ok r), w'))
   \<and> (elicitInput srv (elicit_request input) w = (Inl err, w')
      \<longrightarrow> (\<exists>msg. configureAnalysis rt input srv w =
                   (Inr (Ok \<lparr>action = ''accept'',
                              config = Some \<lparr>depth = PStr ''standard'', includeSentiment = True,
                                             includeEntities = True, maxSummaryWords = Num 100\<rparr>,
                              message = msg\<rparr>), w')
                 \<and> includes_str msg ''default''))
   \<and> (elicitInput srv (elicit_request input) w = (Inr (ElicitResult ''decline'' c), w')
      \<longrightarrow> (\<exists>msg. configureAnalysis rt input srv w =
                   (Inr (Ok \<lparr>action = ''decline'', config = None, message = msg\<rparr>), w')))
   \<and> (elicitInput srv (elicit_request input) w = (Inr (ElicitResult ''cancel'' c), w')
      \<longrightarrow> (\<exists>msg. configureAnalysis rt input srv w =
                   (Inr (Ok \<lparr>action = ''cancel'', config = None, message = msg\<rparr>), w')))"
proof -
  have d: "includes_str ''Using default configuration (elicitation not supported by client).'' ''default''"
    by code_simp
  show ?thesis
    using configure_success [of rt input srv w] configure_raise [of srv input w err w' rt]
      configure_decline [of srv input w c w' rt] configure_cancel [of srv input w c w' rt] d
    by blast
qed


theorem configure_analysis_always_succeeds_witness:
  "(\<exists>msg. configureAnalysis
          \<lparr>matchAll = (\<lambda>ty s. []), StringToNumber = (\<lambda>s. NaN), NumberToString = (\<lambda>n. ''NaN'')\<rparr>
          (ConfigureAnalysisInput ''Text.'')
          \<lparr>createMessage = (\<lambda>req. rejected (Thrown ''Error: unsupported'')),
           elicitInput = (\<lambda>req. rejected (Thrown ''Error: Client does not support elicitation''))\<rparr> ()
        = (Inr (Ok \<lparr>action = ''accept'',
                    config = Some \<lparr>depth = PStr ''standard'', includeSentiment = True,
                                   includeEntities = True, maxSummaryWords = Num 100\<rparr>,
                    message = msg\<rparr>), ())
        \<and> includes_str msg ''default'')
   \<and> (\<exists>msg. configureAnalysis
          \<lparr>matchAll = (\<lambda>ty s. []), StringToNumber = (\<lambda>s. NaN), NumberToString = (\<lambda>n. ''NaN'')\<rparr>
          (ConfigureAnalysisInput ''Text.'')
          \<lparr>createMessage = (\<lambda>req. rejected (Thrown ''Error: unsupported'')),
           elicitInput = (\<lambda>req. resolved (ElicitResult ''decline'' ContentAbsent))\<rparr> ()
        = (Inr (Ok \<lparr>action = ''decline'', config = None, message = msg\<rparr>), ()))
   \<and> (\<exists>msg. configureAnalysis
          \<lparr>matchAll = (\<lambda>ty s. []), StringToNumber = (\<lambda>s. NaN), NumberToString = (\<lambda>n. ''NaN'')\<rparr>
          (ConfigureAnalysisInput ''Text.'')
          \<lparr>createMessage = (\<lambda>req. rejected (Thrown ''Error: unsupported'')),
           elicitInput = (\<lambda>req. resolved (ElicitResult ''cancel'' ContentAbsent))\<rparr> ()
        = (Inr (Ok \<lparr>action = ''cancel'', config = None, message = msg\<rparr>), ()))"
  using
    configure_analysis_always_succeeds [where
      srv = "\<lparr>createMessage = (\<lambda>req. rejected (Thrown ''Error: unsupported'')),
           elicitInput = (\<lambda>req. rejected (Thrown ''Error: Client does not support elicitation''))\<rparr>"
      and input = "ConfigureAnalysisInput ''Text.''" and w = "()" and w' = "()" and rt = "\<lparr>matchAll = (\<lambda>ty s. []), StringToNumber = (\<lambda>s. NaN), NumberToString = (\<lambda>n. ''NaN'')\<rparr>"
      and err = "Thrown ''Error: Client does not support elicitation''"]
    configure_analysis_always_succeeds [where
      srv = "\<lparr>createMessage = (\<lambda>req. rejected (Thrown ''Error: unsupported'')),
           elicitInput = (\<lambda>req. resolved (ElicitResult ''decline'' ContentAbsent))\<rparr>"
      and input = "ConfigureAnalysisInput ''Text.''" and w = "()" and w' = "()" and rt = "\<lparr>matchAll = (\<lambda>ty s. []), StringToNumber = (\<lambda>s. NaN), NumberToString = (\<lambda>n. ''NaN'')\<rparr>"
      and c = ContentAbsent]
    configure_analysis_always_succeeds [where
      srv = "\<lparr>createMessage = (\<lambda>req. rejected (Thrown ''Error: unsupported'')),
           elicitInput = (\<lambda>req. resolved (ElicitResult ''cancel'' ContentAbsent))\<rparr>"
      and input = "ConfigureAnalysisInput ''Text.''" and w = "()" and w' = "()" and rt = "\<lparr>matchAll = (\<lambda>ty s. []), StringToNumber = (\<lambda>s. NaN), NumberToString = (\<lambda>n. ''NaN'')\<rparr>"
      and c = ContentAbsent]
  by (simp add: resolved_def rejected_def)

text \<open>
  C10. When the client answers \<open>accept\<close> with a payload that is \<open>null\<close> or missing,
  \<open>configureAnalysis\<close> returns a success whose action is \<open>cancel\<close>, without a
  configuration: the accept branch needs a payload, the decline branch does not match, and
  the final return is reached.
\<close>

theorem accept_without_payload_cancels:
  assumes "elicitInput srv (elicit_request input) w = (Inr (ElicitResult ''accept'' c), w')"
    and "c = ContentAbsent \<or> c = ContentNull"
  shows "configureAnalysis rt input srv w =
           (Inr (Ok \<lparr>action = ''cancel'', config = None,
                      message = ''User cancelled the analysis configuration dialog.''\<rparr>), w')"
  using assms by (auto simp: configureAnalysis_def)

theorem accept_without_payload_cancels_witness:
  "configureAnalysis
          \<lparr>matchAll = (\<lambda>ty s. []), StringToNumber = (\<lambda>s. NaN), NumberToString = (\<lambda>n. ''NaN'')\<rparr>
          (ConfigureAnalysisInput ''Text.'')
      \<lparr>createMessage = (\<lambda>req. rejected (Thrown ''Error: unsupported'')),
       elicitInput = (\<lambda>req. resolved (ElicitResult ''accept'' ContentNull))\<rparr> ()
    = (Inr (Ok \<lparr>action = ''cancel'', config = None,
                message = ''User cancelled the analysis configuration dialog.''\<rparr>), ())
   \<and> configureAnalysis
          \<lparr>matchAll = (\<lambda>ty s. []), StringToNumber = (\<lambda>s. NaN), NumberToString = (\<lambda>n. ''NaN'')\<rparr>
          (ConfigureAnalysisInput ''Text.'')
      \<lparr>createMessage = (\<lambda>req. rejected (Thrown ''Error: unsupported'')),
       elicitInput = (\<lambda>req. resolved (ElicitResult ''accept'' ContentAbsent))\<rparr> ()
    = (Inr (Ok \<lparr>action = ''cancel'', config = None,
                message = ''User cancelled the analysis configuration dialog.''\<rparr>), ())"
  using
    accept_without_payload_cancels [where
      srv = "\<lparr>createMessage = (\<lambda>req. rejected (Thrown ''Error: unsupported'')),
       elicitInput = (\<lambda>req. resolved (ElicitResult ''accept'' ContentNull))\<rparr>"
      and input = "ConfigureAnalysisInput ''Text.''" and w = "()" and w' = "()" and rt = "\<lparr>matchAll = (\<lambda>ty s. []), StringToNumber = (\<lambda>s. NaN), NumberToString = (\<lambda>n. ''NaN'')\<rparr>"
      and c = ContentNull]
    accept_without_payload_cancels [where
      srv = "\<lparr>createMessage = (\<lambda>req. rejected (Thrown ''Error: unsupported'')),
       elicitInput = (\<lambda>req. resolved (ElicitResult ''accept'' ContentAbsent))\<rparr>"
      and input = "ConfigureAnalysisInput ''Text.''" and w = "()" and w' = "()" and rt = "\<lparr>matchAll = (\<lambda>ty s. []), StringToNumber = (\<lambda>s. NaN), NumberToString = (\<lambda>n. ''NaN'')\<rparr>"
      and c = ContentAbsent]
  by (simp add: resolved_def rejected_def)

section \<open>Properties of the tool-call handler\<close>

text \<open>
  C8. For every tool name that is not in the catalog and every argument value, the tool-call
  handler does not throw: it resolves to a response flagged as an error whose text names the
  unknown tool.
\<close>

theorem unknown_tool_error_response:
  assumes "tool \<notin> set tool_names"
  shows "callTool rt providers srv tool args w =
           (Inr \<lparr>content = [Text (''Unknown tool: '' @ tool)], structuredContent = None,
                  isError = True\<rparr>, w)
         \<and> includes_str (''Unknown tool: '' @ tool) tool"
proof -
  have "callTool rt providers srv tool args w =
           (Inr \<lparr>content = [Text (''Unknown tool: '' @ tool)], structuredContent = None,
                  isError = True\<rparr>, w)"
    using assms by (simp add: callTool_def tool_names_def)
  moreover have "includes_str (''Unknown tool: '' @ tool) tool"
    by (rule includes_str_append)
  ultimately show ?thesis by blast
qed

theorem unknown_tool_error_response_witness:
  "''nonexistent_tool'' \<notin> set tool_names
   \<and> callTool \<lparr>matchAll = (\<lambda>ty s. []), StringToNumber = (\<lambda>s. NaN), NumberToString = (\<lambda>n. ''NaN'')\<rparr>
       mockProviders
       \<lparr>createMessage = (\<lambda>req. rejected (Thrown ''Error: unsupported'')),
        elicitInput = (\<lambda>req. rejected (Thrown ''Error: unsupported''))\<rparr>
       ''nonexistent_tool'' (Some (JObj [])) ()
     = (Inr \<lparr>content = [Text ''Unknown tool: nonexistent_tool''], structuredContent = None,
              isError = True\<rparr>, ())"
proof -
  have h: "''nonexistent_tool'' \<notin> set tool_names" by (simp add: tool_names_def)
  show ?thesis
    using h unknown_tool_error_response [OF h, of
        "\<lparr>matchAll = (\<lambda>ty s. []), StringToNumber = (\<lambda>s. NaN), NumberToString = (\<lambda>n. ''NaN'')\<rparr>"
        mockProviders
        "\<lparr>createMessage = (\<lambda>req. rejected (Thrown ''Error: unsupported'')),
        elicitInput = (\<lambda>req. rejected (Thrown ''Error: unsupported''))\<rparr>"
        "Some (JObj [])" "()"]
    by simp
qed

section \<open>The schemas fail exactly on the violations of their declaration\<close>

lemma map_sum_fails: "(\<exists>e. map_sum id f r = Inl e) = (\<exists>e. r = Inl e)"
  by (cases r) auto

lemma z_object2_fails:
  "(\<exists>e. z_object2 k1 p1 k2 p2 (Some (JObj obj)) = Inl e)
   = ((\<exists>e. p1 [k1] (map_of obj k1) = Inl e) \<or> (\<exists>e. p2 [k2] (map_of obj k2) = Inl e))"
  by (auto simp: z_object2_def split: sum.splits)

lemma z_object2_not_object:
  "(\<forall>obj. args \<noteq> Some (JObj obj)) \<Longrightarrow> \<exists>e. z_object2 k1 p1 k2 p2 args = Inl e"
  by (auto simp: z_object2_def split: option.splits json.splits)

lemma z_object1_not_object:
  "(\<forall>obj. args \<noteq> Some (JObj obj)) \<Longrightarrow> \<exists>e. z_object1 k p args = Inl e"
  by (auto simp: z_object1_def split: option.splits json.splits)

lemma violates_not_object: "(\<forall>obj. args \<noteq> Some (JObj obj)) \<Longrightarrow> violates decl args"
  by (auto simp: violates_def split: option.splits json.splits)

lemma text_field_fails:
  "(\<exists>e. z_min 1 z_string pth (map_of obj k) = Inl e) = field_violation obj (text_field k)"
proof (cases "map_of obj k")
  case None
  then show ?thesis by (simp add: z_min_def z_string_def field_violation_def text_field_def)
next
  case (Some v)
  then show ?thesis
    by (cases v) (auto simp: z_min_def z_string_def field_violation_def text_field_def)
qed

lemma maxLength_fails:
  assumes "d = of_int \<lfloor>d\<rfloor>" "0 < d"
  shows "(\<exists>e. z_optional_default (JNum d) (z_number [check_int, check_positive]) pth
            (map_of obj ''maxLength'') = Inl e)
   = field_violation obj maxLength_field"
proof (cases "map_of obj ''maxLength''")
  case None
  then show ?thesis using assms
    by (simp add: z_optional_default_def z_number_def field_violation_def maxLength_field_def)
next
  case (Some v)
  then show ?thesis
    by (cases v)
      (auto simp: z_optional_default_def z_number_def field_violation_def maxLength_field_def
        Let_def)
qed

lemma maxResults_fails:
  "(\<exists>e. z_optional_default (JNum 5) (z_number [check_int, check_min 1, check_max 20]) pth
            (map_of obj ''maxResults'') = Inl e)
   = field_violation obj
       \<lparr>field_name = ''maxResults'', jtype = number_type, required = False,
        constraints = [Integer, AtLeast 1, AtMost 20]\<rparr>"
proof (cases "map_of obj ''maxResults''")
  case None
  then show ?thesis
    by (simp add: z_optional_default_def z_number_def field_violation_def)
next
  case (Some v)
  then show ?thesis
    by (cases v)
      (auto simp: z_optional_default_def z_number_def field_violation_def Let_def)
qed

lemma unit_fails:
  "(\<exists>e. z_optional_default (JStr ''fahrenheit'')
            (z_enum [(''celsius'', celsius), (''fahrenheit'', fahrenheit)]) pth
            (map_of obj ''unit'') = Inl e)
   = field_violation obj
       \<lparr>field_name = ''unit'', jtype = string_type, required = False,
        constraints = [OneOf [''celsius'', ''fahrenheit'']]\<rparr>"
proof (cases "map_of obj ''unit''")
  case None
  then show ?thesis
    by (simp add: z_optional_default_def z_enum_def field_violation_def)
next
  case (Some v)
  then show ?thesis
    by (cases v)
      (auto simp: z_optional_default_def z_enum_def field_violation_def)
qed

lemma entity_enum_cases:
  "z_enum entity_types pth (Some x) =
     (case x of
        JStr s \<Rightarrow>
          (if s \<in> set [''person'', ''organization'', ''location'', ''date'', ''technology'']
           then Inr (the (map_of entity_types s))
           else Inl [ZodIssue invalid_enum_value pth])
      | _ \<Rightarrow> Inl [ZodIssue invalid_type pth])"
proof (cases x)
  case (JStr s)
  have "map_of entity_types s = None"
    if "s \<notin> set [''person'', ''organization'', ''location'', ''date'', ''technology'']"
    using that by (simp add: entity_types_def)
  moreover have "\<exists>a. map_of entity_types s = Some a"
    if "s \<in> set [''person'', ''organization'', ''location'', ''date'', ''technology'']"
    using that by (auto simp: entity_types_def)
  ultimately show ?thesis using JStr
    by (auto simp: z_enum_def simp del: set_simps list.set)
qed (simp_all add: z_enum_def)

lemma entity_elements:
  "(fst (z_elements (z_enum entity_types) pth i xs) = [])
   = (\<not> list_ex (\<lambda>x. case x of JStr s \<Rightarrow>
          s \<notin> set [''person'', ''organization'', ''location'', ''date'', ''technology'']
        | _ \<Rightarrow> True) xs)"
proof (induction xs arbitrary: i)
  case Nil
  then show ?case by simp
next
  case (Cons x xs)
  obtain issues vs where zs: "z_elements (z_enum entity_types) pth (i + 1) xs = (issues, vs)"
    by (cases "z_elements (z_enum entity_types) pth (i + 1) xs")
  show ?case
    using Cons.IH [of "i + 1"] zs
    by (cases x)
      (simp_all add: entity_enum_cases del: set_simps list.set)
qed


lemma types_fails:
  "(\<exists>e. z_optional_default (JArr [JStr ''person'', JStr ''organization'', JStr ''location''])
            (z_array (z_enum entity_types)) pth (map_of obj ''types'') = Inl e)
   = field_violation obj
       \<lparr>field_name = ''types'', jtype = array_type, required = False,
        constraints = [EachOneOf [''person'', ''organization'', ''location'', ''date'',
                                  ''technology'']]\<rparr>"
proof -
  have arr: "(\<exists>e. z_array (z_enum entity_types) pth (Some (JArr xs)) = Inl e)
      = list_ex (\<lambda>x. case x of JStr s \<Rightarrow>
          s \<notin> set [''person'', ''organization'', ''location'', ''date'', ''technology'']
        | _ \<Rightarrow> True) xs" for xs
  proof -
    obtain issues vs where zs: "z_elements (z_enum entity_types) pth 0 xs = (issues, vs)"
      by (cases "z_elements (z_enum entity_types) pth 0 xs")
    then have "(issues = []) = (\<not> list_ex (\<lambda>x. case x of JStr s \<Rightarrow>
          s \<notin> set [''person'', ''organization'', ''location'', ''date'', ''technology'']
        | _ \<Rightarrow> True) xs)"
      using entity_elements [of pth 0 xs] by simp
    then show ?thesis using zs by (simp add: z_array_def del: set_simps list.set)
  qed
  have dflt: "\<not> list_ex (\<lambda>x. case x of JStr s \<Rightarrow>
          s \<notin> set [''person'', ''organization'', ''location'', ''date'', ''technology'']
        | _ \<Rightarrow> True) [JStr ''person'', JStr ''organization'', JStr ''location'']"
    by simp
  show ?thesis
  proof (cases "map_of obj ''types''")
    case None
    then show ?thesis using arr [of "[JStr ''person'', JStr ''organization'', JStr ''location'']"] dflt
      by (simp add: z_optional_default_def field_violation_def del: set_simps list.set)
  next
    case (Some v)
    show ?thesis
    proof (cases v)
      case (JArr xs)
      then show ?thesis using Some arr [of xs]
        by (simp add: z_optional_default_def field_violation_def del: set_simps list.set)
    qed (use Some in \<open>simp_all add: z_optional_default_def z_array_def field_violation_def\<close>)
  qed
qed

lemma violates_fields:
  "violates decl (Some (JObj obj)) = list_ex (field_violation obj) decl"
  by (simp add: violates_def)

lemma schema2_fails:
  assumes "\<And>obj. (\<exists>e. p1 [k1] (map_of obj k1) = Inl e) = field_violation obj f1"
    and "\<And>obj. (\<exists>e. p2 [k2] (map_of obj k2) = Inl e) = field_violation obj f2"
  shows "(\<exists>e. map_sum id g (z_object2 k1 p1 k2 p2 args) = Inl e) = violates [f1, f2] args"
proof (cases "\<exists>obj. args = Some (JObj obj)")
  case True
  then obtain obj where "args = Some (JObj obj)" by blast
  then show ?thesis
    using assms by (simp add: map_sum_fails z_object2_fails violates_fields)
next
  case False
  then have "\<forall>obj. args \<noteq> Some (JObj obj)" by blast
  then show ?thesis
    using z_object2_not_object [of args] violates_not_object [of args]
    by (simp only: map_sum_fails) blast
qed

lemma schema1_fails:
  assumes "\<And>obj. (\<exists>e. p1 [k1] (map_of obj k1) = Inl e) = field_violation obj f1"
  shows "(\<exists>e. map_sum id g (z_object1 k1 p1 args) = Inl e) = violates [f1] args"
proof (cases "\<exists>obj. args = Some (JObj obj)")
  case True
  then obtain obj where "args = Some (JObj obj)" by blast
  then show ?thesis
    using assms by (simp add: map_sum_fails z_object1_def violates_fields)
next
  case False
  then have "\<forall>obj. args \<noteq> Some (JObj obj)" by blast
  then show ?thesis
    using z_object1_not_object [of args] violates_not_object [of args]
    by (simp only: map_sum_fails) blast
qed

lemma SummarizeSchema_fails:
  "(\<exists>e. SummarizeSchema args = Inl e) = violates [text_field ''text'', maxLength_field] args"
  unfolding SummarizeSchema_def
  by (rule schema2_fails) (rule text_field_fails, rule maxLength_fails, simp_all)

lemma SmartSummarizeSchema_fails:
  "(\<exists>e. SmartSummarizeSchema args = Inl e) = violates [text_field ''text'', maxLength_field] args"
  unfolding SmartSummarizeSchema_def
  by (rule schema2_fails) (rule text_field_fails, rule maxLength_fails, simp_all)

lemma SentimentSchema_fails:
  "(\<exists>e. SentimentSchema args = Inl e) = violates [text_field ''text''] args"
  unfolding SentimentSchema_def
  by (rule schema1_fails) (rule text_field_fails)

lemma ConfigureAnalysisSchema_fails:
  "(\<exists>e. ConfigureAnalysisSchema args = Inl e) = violates [text_field ''text''] args"
  unfolding ConfigureAnalysisSchema_def
  by (rule schema1_fails) (rule text_field_fails)

lemma EntitySchema_fails:
  "(\<exists>e. EntitySchema args = Inl e)
   = violates [text_field ''text'',
        \<lparr>field_name = ''types'', jtype = array_type, required = False,
         constraints = [EachOneOf [''person'', ''organization'', ''location'', ''date'',
                                   ''technology'']]\<rparr>] args"
  unfolding EntitySchema_def
  by (rule schema2_fails) (rule text_field_fails, rule types_fails)

lemma SearchSchema_fails:
  "(\<exists>e. SearchSchema args = Inl e)
   = violates [text_field ''query'',
        \<lparr>field_name = ''maxResults'', jtype = number_type, required = False,
         constraints = [Integer, AtLeast 1, AtMost 20]\<rparr>] args"
  unfolding SearchSchema_def
  by (rule schema2_fails) (rule text_field_fails, rule maxResults_fails)

lemma WeatherSchema_fails:
  "(\<exists>e. WeatherSchema args = Inl e)
   = violates [text_field ''location'',
        \<lparr>field_name = ''unit'', jtype = string_type, required = False,
         constraints = [OneOf [''celsius'', ''fahrenheit'']]\<rparr>] args"
  unfolding WeatherSchema_def
  by (rule schema2_fails) (rule text_field_fails, rule unit_fails)

section \<open>Validation and exceptions in the tool-call handler\<close>

lemma declared_schema_listed:
  "declared_schema tool = Some decl \<Longrightarrow> tool \<in> set tool_names"
  by (simp add: declared_schema_def tool_names_def split: if_splits)

lemma parse_failure_rejects:
  assumes "declared_schema tool = Some decl" and "violates decl args"
  shows "\<exists>issues. \<forall>rt providers srv w.
           callTool rt providers srv tool args w = (Inl (ZodError issues), w)"
proof -
  have c1: ?thesis if t: "tool = ''summarize''"
  proof -
    from assms(1) t have "decl = [text_field ''text'', maxLength_field]"
      by (simp add: declared_schema_def)
    with assms(2) obtain e where e: "SummarizeSchema args = Inl e"
      using SummarizeSchema_fails [of args] by blast
    show ?thesis
      by (rule exI [of _ e]) (simp add: callTool_def t run_tool_def e)
  qed
  have c2: ?thesis if t: "tool = ''analyze_sentiment''"
  proof -
    from assms(1) t have "decl = [text_field ''text'']"
      by (simp add: declared_schema_def)
    with assms(2) obtain e where e: "SentimentSchema args = Inl e"
      using SentimentSchema_fails [of args] by blast
    show ?thesis
      by (rule exI [of _ e]) (simp add: callTool_def t run_tool_def e)
  qed
  have c3: ?thesis if t: "tool = ''extract_entities''"
  proof -
    from assms(1) t have "decl = [text_field ''text'',
            \<lparr>field_name = ''types'', jtype = array_type, required = False,
             constraints = [EachOneOf [''person'', ''organization'', ''location'', ''date'',
                                       ''technology'']]\<rparr>]"
      by (simp add: declared_schema_def)
    with assms(2) obtain e where e: "EntitySchema args = Inl e"
      using EntitySchema_fails [of args] by blast
    show ?thesis
      by (rule exI [of _ e]) (simp add: callTool_def t run_tool_def e)
  qed
  have c4: ?thesis if t: "tool = ''brave_web_search''"
  proof -
    from assms(1) t have "decl = [text_field ''query'',
            \<lparr>field_name = ''maxResults'', jtype = number_type, required = False,
             constraints = [Integer, AtLeast 1, AtMost 20]\<rparr>]"
      by (simp add: declared_schema_def)
    with assms(2) obtain e where e: "SearchSchema args = Inl e"
      using SearchSchema_fails [of args] by blast
    show ?thesis
      by (rule exI [of _ e]) (simp add: callTool_def t run_tool_def e)
  qed
  have c5: ?thesis if t: "tool = ''get_weather''"
  proof -
    from assms(1) t have "decl = [text_field ''location'',
            \<lparr>field_name = ''unit'', jtype = string_type, required = False,
             constraints = [OneOf [''celsius'', ''fahrenheit'']]\<rparr>]"
      by (simp add: declared_schema_def)
    with assms(2) obtain e where e: "WeatherSchema args = Inl e"
      using WeatherSchema_fails [of args] by blast
    show ?thesis
      by (rule exI [of _ e]) (simp add: callTool_def t run_tool_def e)
  qed
  have c6: ?thesis if t: "tool = ''smart_summarize''"
  proof -
    from assms(1) t have "decl = [text_field ''text'', maxLength_field]"
      by (simp add: declared_schema_def)
    with assms(2) obtain e where e: "SmartSummarizeSchema args = Inl e"
      using SmartSummarizeSchema_fails [of args] by blast
    show ?thesis
      by (rule exI [of _ e]) (simp add: callTool_def t run_tool_def e)
  qed
  have c7: ?thesis if t: "tool = ''configure_analysis''"
  proof -
    from assms(1) t have "decl = [text_field ''text'']"
      by (simp add: declared_schema_def)
    with assms(2) obtain e where e: "ConfigureAnalysisSchema args = Inl e"
      using ConfigureAnalysisSchema_fails [of args] by blast
    show ?thesis
      by (rule exI [of _ e]) (simp add: callTool_def t run_tool_def e)
  qed
  from declared_schema_listed [OF assms(1)]
  have "tool = ''summarize'' \<or> tool = ''analyze_sentiment'' \<or> tool = ''extract_entities''
      \<or> tool = ''brave_web_search'' \<or> tool = ''get_weather'' \<or> tool = ''smart_summarize''
      \<or> tool = ''configure_analysis''"
    by (simp add: tool_names_def)
  then show ?thesis
    using c1 c2 c3 c4 c5 c6 c7 by (elim disjE)
qed


text \<open>
  C1. For every tool of the catalog and all raw arguments that violate the tool's declared
  input schema (they are not an object, a required field is missing, a field has the wrong
  type, or a constraint on length, bounds or enum membership is broken), the tool-call handler
  rejects with a \<open>ZodError\<close>. The outcome is the same for all providers, every client and
  every state of the world, and the world is left as it was: the tool is not invoked. The
  outcome is neither the response that reports a failure of a tool nor an exception of a tool.
\<close>

theorem invalid_arguments_rejected:
  assumes "declared_schema tool = Some decl" and "violates decl args"
  shows "\<exists>issues.
           (\<forall>rt providers srv. \<forall>w :: 'w.
              callTool rt providers srv tool args w = (Inl (ZodError issues), w))
         \<and> (\<forall>rt providers srv e x. \<forall>w w' :: 'w.
              callTool rt providers srv tool args w \<noteq> (Inr (error_response e), w')
              \<and> callTool rt providers srv tool args w \<noteq> (Inl (Uncaught x), w'))"
proof -
  from parse_failure_rejects [OF assms] obtain issues
    where r: "\<And>rt providers srv. \<And>w :: 'w.
      callTool rt providers srv tool args w = (Inl (ZodError issues), w)"
    by blast
  show ?thesis
    by (rule exI [of _ issues]) (simp add: r)
qed

theorem invalid_arguments_rejected_witness:
  "violates [text_field ''location'',
        \<lparr>field_name = ''unit'', jtype = string_type, required = False, constraints = [OneOf [''celsius'', ''fahrenheit'']]\<rparr>]
       (Some (JObj []))
   \<and> (\<exists>issues. \<forall>rt providers srv. \<forall>w :: unit.
          callTool rt providers srv ''get_weather''
            (Some (JObj [])) w
          = (Inl (ZodError issues), w))
   \<and> violates [text_field ''text'', maxLength_field]
       (Some (JObj [(''text'', JNum 5)]))
   \<and> (\<exists>issues. \<forall>rt providers srv. \<forall>w :: unit.
          callTool rt providers srv ''summarize''
            (Some (JObj [(''text'', JNum 5)])) w
          = (Inl (ZodError issues), w))
   \<and> violates [text_field ''text'']
       (Some (JObj [(''text'', JStr [])]))
   \<and> (\<exists>issues. \<forall>rt providers srv. \<forall>w :: unit.
          callTool rt providers srv ''analyze_sentiment''
            (Some (JObj [(''text'', JStr [])])) w
          = (Inl (ZodError issues), w))
   \<and> violates [text_field ''query'',
        \<lparr>field_name = ''maxResults'', jtype = number_type, required = False, constraints = [Integer, AtLeast 1, AtMost 20]\<rparr>]
       (Some (JObj [(''query'', JStr ''MCP protocol''), (''maxResults'', JNum 25)]))
   \<and> (\<exists>issues. \<forall>rt providers srv. \<forall>w :: unit.
          callTool rt providers srv ''brave_web_search''
            (Some (JObj [(''query'', JStr ''MCP protocol''), (''maxResults'', JNum 25)])) w
          = (Inl (ZodError issues), w))
   \<and> violates [text_field ''location'',
        \<lparr>field_name = ''unit'', jtype = string_type, required = False, constraints = [OneOf [''celsius'', ''fahrenheit'']]\<rparr>]
       (Some (JObj [(''location'', JStr ''Paris''), (''unit'', JStr ''kelvin'')]))
   \<and> (\<exists>issues. \<forall>rt providers srv. \<forall>w :: unit.
          callTool rt providers srv ''get_weather''
            (Some (JObj [(''location'', JStr ''Paris''), (''unit'', JStr ''kelvin'')])) w
          = (Inl (ZodError issues), w))"
proof -
  have d1: "declared_schema ''get_weather'' = Some [text_field ''location'',
        \<lparr>field_name = ''unit'', jtype = string_type, required = False, constraints = [OneOf [''celsius'', ''fahrenheit'']]\<rparr>]"
    by (simp add: declared_schema_def)
  have v1: "violates [text_field ''location'',
        \<lparr>field_name = ''unit'', jtype = string_type, required = False, constraints = [OneOf [''celsius'', ''fahrenheit'']]\<rparr>]
       (Some (JObj []))"
    by (simp add: violates_def field_violation_def text_field_def maxLength_field_def)
  from invalid_arguments_rejected [OF d1 v1, where ?'w = unit]
  have c1: "(\<exists>issues. \<forall>rt providers srv. \<forall>w :: unit.
          callTool rt providers srv ''get_weather''
            (Some (JObj [])) w
          = (Inl (ZodError issues), w))"
    by blast
  have d2: "declared_schema ''summarize'' = Some [text_field ''text'', maxLength_field]"
    by (simp add: declared_schema_def)
  have v2: "violates [text_field ''text'', maxLength_field]
       (Some (JObj [(''text'', JNum 5)]))"
    by (simp add: violates_def field_violation_def text_field_def maxLength_field_def)
  from invalid_arguments_rejected [OF d2 v2, where ?'w = unit]
  have c2: "(\<exists>issues. \<forall>rt providers srv. \<forall>w :: unit.
          callTool rt providers srv ''summarize''
            (Some (JObj [(''text'', JNum 5)])) w
          = (Inl (ZodError issues), w))"
    by blast
  have d3: "declared_schema ''analyze_sentiment'' = Some [text_field ''text'']"
    by (simp add: declared_schema_def)
  have v3: "violates [text_field ''text'']
       (Some (JObj [(''text'', JStr [])]))"
    by (simp add: violates_def field_violation_def text_field_def maxLength_field_def)
  from invalid_arguments_rejected [OF d3 v3, where ?'w = unit]
  have c3: "(\<exists>issues. \<forall>rt providers srv. \<forall>w :: unit.
          callTool rt providers srv ''analyze_sentiment''
            (Some (JObj [(''text'', JStr [])])) w
          = (Inl (ZodError issues), w))"
    by blast
  have d4: "declared_schema ''brave_web_search'' = Some [text_field ''query'',
        \<lparr>field_name = ''maxResults'', jtype = number_type, required = False, constraints = [Integer, AtLeast 1, AtMost 20]\<rparr>]"
    by (simp add: declared_schema_def)
  have v4: "violates [text_field ''query'',
        \<lparr>field_name = ''maxResults'', jtype = number_type, required = False, constraints = [Integer, AtLeast 1, AtMost 20]\<rparr>]
       (Some (JObj [(''query'', JStr ''MCP protocol''), (''maxResults'', JNum 25)]))"
    by (simp add: violates_def field_violation_def text_field_def maxLength_field_def)
  from invalid_arguments_rejected [OF d4 v4, where ?'w = unit]
  have c4: "(\<exists>issues. \<forall>rt providers srv. \<forall>w :: unit.
          callTool rt providers srv ''brave_web_search''
            (Some (JObj [(''query'', JStr ''MCP protocol''), (''maxResults'', JNum 25)])) w
          = (Inl (ZodError issues), w))"
    by blast
  have d5: "declared_schema ''get_weather'' = Some [text_field ''location'',
        \<lparr>field_name = ''unit'', jtype = string_type, required = False, constraints = [OneOf [''celsius'', ''fahrenheit'']]\<rparr>]"
    by (simp add: declared_schema_def)
  have v5: "violates [text_field ''location'',
        \<lparr>field_name = ''unit'', jtype = string_type, required = False, constraints = [OneOf [''celsius'', ''fahrenheit'']]\<rparr>]
       (Some (JObj [(''location'', JStr ''Paris''), (''unit'', JStr ''kelvin'')]))"
    by (simp add: violates_def field_violation_def text_field_def maxLength_field_def)
  from invalid_arguments_rejected [OF d5 v5, where ?'w = unit]
  have c5: "(\<exists>issues. \<forall>rt providers srv. \<forall>w :: unit.
          callTool rt providers srv ''get_weather''
            (Some (JObj [(''location'', JStr ''Paris''), (''unit'', JStr ''kelvin'')])) w
          = (Inl (ZodError issues), w))"
    by blast
  show ?thesis
    using v1 c1 v2 c2 v3 c3 v4 c4 v5 c5 by (intro conjI)
qed

text \<open>
  C2, as stated, fails: the tool-call handler has no \<open>try\<close>. With a weather provider whose
  call rejects, a \<open>get_weather\<close> call with valid arguments rejects with the same thrown
  value and no response is returned.
\<close>

theorem handler_exception_escapes:
  "callTool \<lparr>matchAll = (\<lambda>ty s. []), StringToNumber = (\<lambda>s. NaN), NumberToString = (\<lambda>n. ''NaN'')\<rparr>
      \<lparr>text = (\<lambda>prompt options. resolved (MockTextProvider_complete prompt options)),
       search = (\<lambda>q n. resolved (MockWebSearchProvider_search q n)),
       weather = (\<lambda>loc. rejected (Thrown ''TypeError: Cannot read properties of null''))\<rparr>
      \<lparr>createMessage = (\<lambda>req. rejected (Thrown ''Error: unsupported'')),
       elicitInput = (\<lambda>req. rejected (Thrown ''Error: unsupported''))\<rparr>
      ''get_weather'' (Some (JObj [(''location'', JStr ''Paris'')])) ()
   = (Inl (Uncaught (Thrown ''TypeError: Cannot read properties of null'')), ())"
proof -
  have s: "WeatherSchema (Some (JObj [(''location'', JStr ''Paris'')]))
             = Inr (WeatherInput ''Paris'' fahrenheit)"
    by (simp add: WeatherSchema_def z_object2_def z_min_def z_string_def z_optional_default_def
        z_enum_def)
  show ?thesis
    by (simp add: callTool_def run_tool_def s getWeather_def rejected_def)
qed

lemma smartSummarize_resolves:
  "\<exists>r w'. smartSummarize rt i srv w = (Inr r, w')"
proof (cases "createMessage srv (smart_request rt i) w")
  case (Pair res w')
  show ?thesis
  proof (cases res)
    case (Inl err)
    with Pair show ?thesis by (simp add: smartSummarize_def)
  next
    case (Inr response)
    obtain c where "response = CreateMessageResult c" by (cases response)
    with Pair Inr show ?thesis by (cases c) (simp_all add: smartSummarize_def)
  qed
qed

lemma analyzeSentiment_ok: "\<exists>r. analyzeSentiment i p = Ok r"
  by (simp add: analyzeSentiment_def Let_def split: prod.splits)

lemma extractEntities_ok: "\<exists>r. extractEntities rt i p = Ok r"
  by (simp add: extractEntities_def)

lemma mock_weather_ok: "\<exists>v. MockWeatherProvider_getWeather loc = Ok v"
  by (simp add: MockWeatherProvider_getWeather_def Let_def split: option.splits)

lemma summarize_mock:
  "\<exists>r. summarize rt si (\<lambda>prompt options. resolved (MockTextProvider_complete prompt options)) w
         = (Inr (Ok r), w)"
  by (simp add: summarize_def resolved_def Let_def MockTextProvider_complete_def)

lemma run_tool_rejection:
  assumes "run_tool schema f respond args w = (Inl err, w')"
  shows "(\<exists>issues. err = ZodError issues \<and> w' = w)
       \<or> (\<exists>x i. err = Uncaught x \<and> schema args = Inr i \<and> f i w = (Inl x, w'))"
proof (cases "schema args")
  case (Inl issues)
  with assms show ?thesis by (auto simp: run_tool_def)
next
  case (Inr i)
  obtain res w'' where f: "f i w = (res, w'')" by (cases "f i w")
  show ?thesis
  proof (cases res)
    case (Inl x)
    with assms Inr f show ?thesis by (auto simp: run_tool_def)
  next
    case r: (Inr r)
    with assms Inr f show ?thesis by (cases r) (auto simp: run_tool_def)
  qed
qed

lemma run_tool_quiet:
  assumes "\<And>i. \<exists>r w'. f i w = (Inr r, w')"
    and "run_tool schema f respond args w = (Inl err, w')"
  shows "\<exists>issues. err = ZodError issues \<and> w' = w"
proof -
  from run_tool_rejection [OF assms(2)]
  show ?thesis
  proof
    assume "\<exists>issues. err = ZodError issues \<and> w' = w"
    then show ?thesis .
  next
    assume "\<exists>x i. err = Uncaught x \<and> schema args = Inr i \<and> f i w = (Inl x, w')"
    then obtain x i where "f i w = (Inl x, w')" by blast
    moreover obtain r w'' where "f i w = (Inr r, w'')" using assms(1) by blast
    ultimately show ?thesis by simp
  qed
qed

lemma callTool_unknown:
  "tool \<notin> set tool_names \<Longrightarrow>
   callTool rt providers srv tool args w =
     (Inr \<lparr>content = [Text (''Unknown tool: '' @ tool)], structuredContent = None,
            isError = True\<rparr>, w)"
  by (simp add: callTool_def tool_names_def)

lemma run_tool_loud:
  assumes "run_tool schema f respond args w = (Inl err, w')"
    and "tool \<in> set [''summarize'', ''brave_web_search'', ''get_weather'']"
  shows "(\<exists>issues. err = ZodError issues \<and> w' = w)
       \<or> (\<exists>x. err = Uncaught x
            \<and> tool \<in> set [''summarize'', ''brave_web_search'', ''get_weather''])"
  using run_tool_rejection [OF assms(1)] assms(2) by blast

lemma run_tool_silent:
  assumes "run_tool schema f respond args w = (Inl err, w')"
    and "\<And>i. \<exists>r w'. f i w = (Inr r, w')"
  shows "(\<exists>issues. err = ZodError issues \<and> w' = w)
       \<or> (\<exists>x. err = Uncaught x
            \<and> tool \<in> set [''summarize'', ''brave_web_search'', ''get_weather''])"
  using run_tool_quiet [OF assms(2) assms(1)] by blast

lemma rejection_origin:
  assumes "callTool rt providers srv tool args w = (Inl err, w')"
  shows "(\<exists>issues. err = ZodError issues \<and> w' = w)
       \<or> (\<exists>x. err = Uncaught x
            \<and> tool \<in> set [''summarize'', ''brave_web_search'', ''get_weather''])"
proof -
  have c1: ?thesis if t: "tool = ''summarize''"
    by (rule run_tool_loud [OF assms [unfolded callTool_def t, simplified]]) (simp add: t)
  have c2: ?thesis if t: "tool = ''analyze_sentiment''"
    by (rule run_tool_silent [OF assms [unfolded callTool_def t, simplified]])
      (simp add: resolved_def)
  have c3: ?thesis if t: "tool = ''extract_entities''"
    by (rule run_tool_silent [OF assms [unfolded callTool_def t, simplified]])
      (simp add: resolved_def)
  have c4: ?thesis if t: "tool = ''brave_web_search''"
    by (rule run_tool_loud [OF assms [unfolded callTool_def t, simplified]]) (simp add: t)
  have c5: ?thesis if t: "tool = ''get_weather''"
    by (rule run_tool_loud [OF assms [unfolded callTool_def t, simplified]]) (simp add: t)
  have c6: ?thesis if t: "tool = ''smart_summarize''"
    by (rule run_tool_silent [OF assms [unfolded callTool_def t, simplified]])
      (rule smartSummarize_resolves)
  have c7: ?thesis if t: "tool = ''configure_analysis''"
  proof -
    have ok: "\<exists>r w'. configureAnalysis rt i srv w = (Inr r, w')" for i
      using configure_success [of rt i srv w] by blast
    show ?thesis
      by (rule run_tool_silent [OF assms [unfolded callTool_def t, simplified]]) (rule ok)
  qed
  have c8: ?thesis if t: "tool \<notin> set tool_names"
    using assms callTool_unknown [OF t, of rt providers srv args w] by simp
  have "tool = ''summarize'' \<or> tool = ''analyze_sentiment'' \<or> tool = ''extract_entities''
      \<or> tool = ''brave_web_search'' \<or> tool = ''get_weather'' \<or> tool = ''smart_summarize''
      \<or> tool = ''configure_analysis'' \<or> tool \<notin> set tool_names"
    by (simp add: tool_names_def) blast
  then show ?thesis
    using c1 c2 c3 c4 c5 c6 c7 c8 by (elim disjE)
qed

text \<open>
  C2, amended. For a tool call with valid arguments: when the tool behind \<open>summarize\<close>,
  \<open>brave_web_search\<close>, \<open>get_weather\<close> or \<open>smart_summarize\<close> returns a failure, the
  tool-call handler resolves to the response flagged as an error with the text \<open>Error: \<close>
  followed by the message, and when it returns a success, to a response that is not flagged;
  \<open>analyze_sentiment\<close>, \<open>extract_entities\<close> and \<open>configure_analysis\<close> never fail, and
  neither does \<open>summarize\<close> on the mock text provider: their call resolves to a response
  that is not flagged. An exception is not caught: when the provider call behind
  \<open>summarize\<close>, \<open>brave_web_search\<close> or \<open>get_weather\<close> rejects, the tool-call handler
  rejects with the same thrown value. For every tool name and all arguments, a rejection of the
  tool-call handler is either the \<open>ZodError\<close> of the validation, with the world untouched,
  or the exception of one of these three tools.
\<close>

theorem handler_failures_and_exceptions:
  "(SummarizeSchema args = Inr si \<and> summarize rt si (text providers) w = (Inr (Err e), w')
      \<longrightarrow> callTool rt providers srv ''summarize'' args w = (Inr (error_response e), w'))
   \<and> (SearchSchema args = Inr qi \<and> webSearch qi (search providers) w = (Inr (Err e), w')
      \<longrightarrow> callTool rt providers srv ''brave_web_search'' args w = (Inr (error_response e), w'))
   \<and> (WeatherSchema args = Inr wi \<and> getWeather wi (weather providers) w = (Inr (Err e), w')
      \<longrightarrow> callTool rt providers srv ''get_weather'' args w = (Inr (error_response e), w'))
   \<and> (SmartSummarizeSchema args = Inr si \<and> smartSummarize rt si srv w = (Inr (Err e), w')
      \<longrightarrow> callTool rt providers srv ''smart_summarize'' args w = (Inr (error_response e), w'))
   \<and> isError (error_response e)
   \<and> (SummarizeSchema args = Inr si \<and> summarize rt si (text providers) w = (Inr (Ok v), w')
      \<longrightarrow> (\<exists>r. callTool rt providers srv ''summarize'' args w = (Inr r, w')
               \<and> \<not> isError r))
   \<and> (SearchSchema args = Inr qi \<and> webSearch qi (search providers) w = (Inr (Ok vs), w')
      \<longrightarrow> (\<exists>r. callTool rt providers srv ''brave_web_search'' args w = (Inr r, w')
               \<and> \<not> isError r))
   \<and> (WeatherSchema args = Inr wi \<and> getWeather wi (weather providers) w = (Inr (Ok vw), w')
      \<longrightarrow> (\<exists>r. callTool rt providers srv ''get_weather'' args w = (Inr r, w')
               \<and> \<not> isError r))
   \<and> (SmartSummarizeSchema args = Inr si \<and> smartSummarize rt si srv w = (Inr (Ok v), w')
      \<longrightarrow> (\<exists>r. callTool rt providers srv ''smart_summarize'' args w = (Inr r, w')
               \<and> \<not> isError r))
   \<and> (SentimentSchema args = Inr ai
      \<longrightarrow> (\<exists>r. callTool rt providers srv ''analyze_sentiment'' args w = (Inr r, w)
               \<and> \<not> isError r))
   \<and> (EntitySchema args = Inr ei
      \<longrightarrow> (\<exists>r. callTool rt providers srv ''extract_entities'' args w = (Inr r, w)
               \<and> \<not> isError r))
   \<and> (ConfigureAnalysisSchema args = Inr ci
      \<longrightarrow> (\<exists>r w'. callTool rt providers srv ''configure_analysis'' args w = (Inr r, w')
               \<and> \<not> isError r))
   \<and> (text providers = (\<lambda>prompt options. resolved (MockTextProvider_complete prompt options))
        \<and> SummarizeSchema args = Inr si
      \<longrightarrow> (\<exists>r. callTool rt providers srv ''summarize'' args w = (Inr r, w)
               \<and> \<not> isError r))
   \<and> (SummarizeSchema args = Inr si \<and> summarize rt si (text providers) w = (Inl x, w')
      \<longrightarrow> callTool rt providers srv ''summarize'' args w = (Inl (Uncaught x), w'))
   \<and> (SearchSchema args = Inr qi \<and> webSearch qi (search providers) w = (Inl x, w')
      \<longrightarrow> callTool rt providers srv ''brave_web_search'' args w = (Inl (Uncaught x), w'))
   \<and> (WeatherSchema args = Inr wi \<and> getWeather wi (weather providers) w = (Inl x, w')
      \<longrightarrow> callTool rt providers srv ''get_weather'' args w = (Inl (Uncaught x), w'))
   \<and> (callTool rt providers srv tool args w = (Inl err, w')
      \<longrightarrow> (\<exists>issues. err = ZodError issues \<and> w' = w)
          \<or> (\<exists>y. err = Uncaught y \<and> tool \<in> set [''summarize'', ''brave_web_search'', ''get_weather'']))"
proof -
  have F1: "(SummarizeSchema args = Inr si \<and> summarize rt si (text providers) w = (Inr (Err e), w')
      \<longrightarrow> callTool rt providers srv ''summarize'' args w = (Inr (error_response e), w'))"
    by (simp add: callTool_def run_tool_def)
  have F2: "(SearchSchema args = Inr qi \<and> webSearch qi (search providers) w = (Inr (Err e), w')
      \<longrightarrow> callTool rt providers srv ''brave_web_search'' args w = (Inr (error_response e), w'))"
    by (simp add: callTool_def run_tool_def)
  have F3: "(WeatherSchema args = Inr wi \<and> getWeather wi (weather providers) w = (Inr (Err e), w')
      \<longrightarrow> callTool rt providers srv ''get_weather'' args w = (Inr (error_response e), w'))"
    by (simp add: callTool_def run_tool_def)
  have F4: "(SmartSummarizeSchema args = Inr si \<and> smartSummarize rt si srv w = (Inr (Err e), w')
      \<longrightarrow> callTool rt providers srv ''smart_summarize'' args w = (Inr (error_response e), w'))"
    by (simp add: callTool_def run_tool_def)
  have E: "isError (error_response e)"
    by (simp add: error_response_def)
  have K1: "(SummarizeSchema args = Inr si \<and> summarize rt si (text providers) w = (Inr (Ok v), w')
      \<longrightarrow> (\<exists>r. callTool rt providers srv ''summarize'' args w = (Inr r, w')
               \<and> \<not> isError r))"
    by (simp add: callTool_def run_tool_def)
  have K2: "(SearchSchema args = Inr qi \<and> webSearch qi (search providers) w = (Inr (Ok vs), w')
      \<longrightarrow> (\<exists>r. callTool rt providers srv ''brave_web_search'' args w = (Inr r, w')
               \<and> \<not> isError r))"
    by (simp add: callTool_def run_tool_def)
  have K3: "(WeatherSchema args = Inr wi \<and> getWeather wi (weather providers) w = (Inr (Ok vw), w')
      \<longrightarrow> (\<exists>r. callTool rt providers srv ''get_weather'' args w = (Inr r, w')
               \<and> \<not> isError r))"
    by (simp add: callTool_def run_tool_def)
  have K4: "(SmartSummarizeSchema args = Inr si \<and> smartSummarize rt si srv w = (Inr (Ok v), w')
      \<longrightarrow> (\<exists>r. callTool rt providers srv ''smart_summarize'' args w = (Inr r, w')
               \<and> \<not> isError r))"
    by (simp add: callTool_def run_tool_def)
  have S1: "(SentimentSchema args = Inr ai
      \<longrightarrow> (\<exists>r. callTool rt providers srv ''analyze_sentiment'' args w = (Inr r, w)
               \<and> \<not> isError r))"
  proof
    assume s: "SentimentSchema args = Inr ai"
    obtain r where "analyzeSentiment ai (text providers) = Ok r"
      using analyzeSentiment_ok [of ai "text providers"] by blast
    with s show "\<exists>r. callTool rt providers srv ''analyze_sentiment'' args w = (Inr r, w)
               \<and> \<not> isError r"
      by (simp add: callTool_def run_tool_def resolved_def)
  qed
  have S2: "(EntitySchema args = Inr ei
      \<longrightarrow> (\<exists>r. callTool rt providers srv ''extract_entities'' args w = (Inr r, w)
               \<and> \<not> isError r))"
  proof
    assume s: "EntitySchema args = Inr ei"
    obtain r where "extractEntities rt ei (text providers) = Ok r"
      using extractEntities_ok [of rt ei "text providers"] by blast
    with s show "\<exists>r. callTool rt providers srv ''extract_entities'' args w = (Inr r, w)
               \<and> \<not> isError r"
      by (simp add: callTool_def run_tool_def resolved_def)
  qed
  have S3: "(ConfigureAnalysisSchema args = Inr ci
      \<longrightarrow> (\<exists>r w'. callTool rt providers srv ''configure_analysis'' args w = (Inr r, w')
               \<and> \<not> isError r))"
  proof
    assume s: "ConfigureAnalysisSchema args = Inr ci"
    from configure_success [of rt ci srv w]
    obtain r w' where "configureAnalysis rt ci srv w = (Inr (Ok r), w')" by blast
    with s show "\<exists>r w'. callTool rt providers srv ''configure_analysis'' args w = (Inr r, w')
               \<and> \<not> isError r"
      by (simp add: callTool_def run_tool_def resolved_def)
  qed
  have T: "(text providers = (\<lambda>prompt options. resolved (MockTextProvider_complete prompt options))
        \<and> SummarizeSchema args = Inr si
      \<longrightarrow> (\<exists>r. callTool rt providers srv ''summarize'' args w = (Inr r, w)
               \<and> \<not> isError r))"
  proof
    assume a: "text providers = (\<lambda>prompt options. resolved (MockTextProvider_complete prompt options))
        \<and> SummarizeSchema args = Inr si"
    from a summarize_mock [of rt si w]
    obtain r where "summarize rt si (text providers) w = (Inr (Ok r), w)"
      by auto
    with a show "\<exists>r. callTool rt providers srv ''summarize'' args w = (Inr r, w)
               \<and> \<not> isError r"
      by (simp add: callTool_def run_tool_def)
  qed
  have X1: "(SummarizeSchema args = Inr si \<and> summarize rt si (text providers) w = (Inl x, w')
      \<longrightarrow> callTool rt providers srv ''summarize'' args w = (Inl (Uncaught x), w'))"
    by (simp add: callTool_def run_tool_def)
  have X2: "(SearchSchema args = Inr qi \<and> webSearch qi (search providers) w = (Inl x, w')
      \<longrightarrow> callTool rt providers srv ''brave_web_search'' args w = (Inl (Uncaught x), w'))"
    by (simp add: callTool_def run_tool_def)
  have X3: "(WeatherSchema args = Inr wi \<and> getWeather wi (weather providers) w = (Inl x, w')
      \<longrightarrow> callTool rt providers srv ''get_weather'' args w = (Inl (Uncaught x), w'))"
    by (simp add: callTool_def run_tool_def)
  have O: "(callTool rt providers srv tool args w = (Inl err, w')
      \<longrightarrow> (\<exists>issues. err = ZodError issues \<and> w' = w)
          \<or> (\<exists>y. err = Uncaught y \<and> tool \<in> set [''summarize'', ''brave_web_search'', ''get_weather'']))"
    using rejection_origin [of rt providers srv tool args w err w'] by blast
  show ?thesis
    using F1 F2 F3 F4 E K1 K2 K3 K4 S1 S2 S3 T X1 X2 X3 O by (intro conjI)
qed

theorem handler_failures_and_exceptions_witness:
  "callTool \<lparr>matchAll = (\<lambda>ty s. []), StringToNumber = (\<lambda>s. NaN), NumberToString = (\<lambda>n. ''NaN'')\<rparr>
       \<lparr>text = (\<lambda>prompt options. resolved (Err ''completion backend unavailable'')),
        search = (\<lambda>q n. resolved (Err ''Brave Search API error: HTTP 429'')),
        weather = (\<lambda>loc. resolved (Err ''OpenWeatherMap API error: HTTP 401''))\<rparr>
       \<lparr>createMessage = (\<lambda>req. rejected (Thrown ''Error: unsupported'')),
        elicitInput = (\<lambda>req. rejected (Thrown ''Error: unsupported''))\<rparr>
       ''summarize'' (Some (JObj [(''text'', JStr ''Long text.'')])) ()
     = (Inr (error_response ''completion backend unavailable''), ()) \<and>
   callTool \<lparr>matchAll = (\<lambda>ty s. []), StringToNumber = (\<lambda>s. NaN), NumberToString = (\<lambda>n. ''NaN'')\<rparr>
       \<lparr>text = (\<lambda>prompt options. resolved (Err ''completion backend unavailable'')),
        search = (\<lambda>q n. resolved (Err ''Brave Search API error: HTTP 429'')),
        weather = (\<lambda>loc. resolved (Err ''OpenWeatherMap API error: HTTP 401''))\<rparr>
       \<lparr>createMessage = (\<lambda>req. rejected (Thrown ''Error: unsupported'')),
        elicitInput = (\<lambda>req. rejected (Thrown ''Error: unsupported''))\<rparr>
       ''brave_web_search'' (Some (JObj [(''query'', JStr ''MCP protocol''), (''maxResults'', JNum 3)])) ()
     = (Inr (error_response ''Brave Search API error: HTTP 429''), ()) \<and>
   callTool \<lparr>matchAll = (\<lambda>ty s. []), StringToNumber = (\<lambda>s. NaN), NumberToString = (\<lambda>n. ''NaN'')\<rparr>
       \<lparr>text = (\<lambda>prompt options. resolved (Err ''completion backend unavailable'')),
        search = (\<lambda>q n. resolved (Err ''Brave Search API error: HTTP 429'')),
        weather = (\<lambda>loc. resolved (Err ''OpenWeatherMap API error: HTTP 401''))\<rparr>
       \<lparr>createMessage = (\<lambda>req. rejected (Thrown ''Error: unsupported'')),
        elicitInput = (\<lambda>req. rejected (Thrown ''Error: unsupported''))\<rparr>
       ''get_weather'' (Some (JObj [(''location'', JStr ''Paris'')])) ()
     = (Inr (error_response ''OpenWeatherMap API error: HTTP 401''), ()) \<and>
   callTool \<lparr>matchAll = (\<lambda>ty s. []), StringToNumber = (\<lambda>s. NaN), NumberToString = (\<lambda>n. ''NaN'')\<rparr>
       mockProviders
       \<lparr>createMessage = (\<lambda>req. rejected (Thrown ''Error: unsupported'')),
        elicitInput = (\<lambda>req. rejected (Thrown ''Error: unsupported''))\<rparr>
       ''smart_summarize'' (Some (JObj [(''text'', JStr ''Long text.'')])) ()
     = (Inr (error_response ''Sampling request failed: Error: unsupported''), ()) \<and>
   (\<exists>r. callTool \<lparr>matchAll = (\<lambda>ty s. []), StringToNumber = (\<lambda>s. NaN), NumberToString = (\<lambda>n. ''NaN'')\<rparr>
       mockProviders
       \<lparr>createMessage = (\<lambda>req. rejected (Thrown ''Error: unsupported'')),
        elicitInput = (\<lambda>req. rejected (Thrown ''Error: unsupported''))\<rparr>
       ''summarize'' (Some (JObj [(''text'', JStr ''Another text.''), (''maxLength'', JNum 20)])) ()
     = (Inr r, ()) \<and> \<not> isError r) \<and>
   (\<exists>r. callTool \<lparr>matchAll = (\<lambda>ty s. []), StringToNumber = (\<lambda>s. NaN), NumberToString = (\<lambda>n. ''NaN'')\<rparr>
       mockProviders
       \<lparr>createMessage = (\<lambda>req. rejected (Thrown ''Error: unsupported'')),
        elicitInput = (\<lambda>req. rejected (Thrown ''Error: unsupported''))\<rparr>
       ''brave_web_search'' (Some (JObj [(''query'', JStr ''MCP protocol''), (''maxResults'', JNum 3)])) ()
     = (Inr r, ()) \<and> \<not> isError r) \<and>
   (\<exists>r. callTool \<lparr>matchAll = (\<lambda>ty s. []), StringToNumber = (\<lambda>s. NaN), NumberToString = (\<lambda>n. ''NaN'')\<rparr>
       mockProviders
       \<lparr>createMessage = (\<lambda>req. rejected (Thrown ''Error: unsupported'')),
        elicitInput = (\<lambda>req. rejected (Thrown ''Error: unsupported''))\<rparr>
       ''get_weather'' (Some (JObj [(''location'', JStr ''Paris'')])) ()
     = (Inr r, ()) \<and> \<not> isError r) \<and>
   (\<exists>r. callTool \<lparr>matchAll = (\<lambda>ty s. []), StringToNumber = (\<lambda>s. NaN), NumberToString = (\<lambda>n. ''NaN'')\<rparr>
       mockProviders
       \<lparr>createMessage = (\<lambda>req. resolved (CreateMessageResult (TextContent ''AI safety summary.''))),
        elicitInput = (\<lambda>req. rejected (Thrown ''Error: unsupported''))\<rparr>
       ''smart_summarize'' (Some (JObj [(''text'', JStr ''Long text.'')])) ()
     = (Inr r, ()) \<and> \<not> isError r) \<and>
   (\<exists>r. callTool \<lparr>matchAll = (\<lambda>ty s. []), StringToNumber = (\<lambda>s. NaN), NumberToString = (\<lambda>n. ''NaN'')\<rparr>
       mockProviders
       \<lparr>createMessage = (\<lambda>req. rejected (Thrown ''Error: unsupported'')),
        elicitInput = (\<lambda>req. rejected (Thrown ''Error: unsupported''))\<rparr>
       ''analyze_sentiment'' (Some (JObj [(''text'', JStr ''Long text.'')])) ()
     = (Inr r, ()) \<and> \<not> isError r) \<and>
   (\<exists>r. callTool \<lparr>matchAll = (\<lambda>ty s. []), StringToNumber = (\<lambda>s. NaN), NumberToString = (\<lambda>n. ''NaN'')\<rparr>
       mockProviders
       \<lparr>createMessage = (\<lambda>req. rejected (Thrown ''Error: unsupported'')),
        elicitInput = (\<lambda>req. rejected (Thrown ''Error: unsupported''))\<rparr>
       ''extract_entities'' (Some (JObj [(''text'', JStr ''Long text.'')])) ()
     = (Inr r, ()) \<and> \<not> isError r) \<and>
   (\<exists>r w'. callTool \<lparr>matchAll = (\<lambda>ty s. []), StringToNumber = (\<lambda>s. NaN), NumberToString = (\<lambda>n. ''NaN'')\<rparr>
       mockProviders
       \<lparr>createMessage = (\<lambda>req. rejected (Thrown ''Error: unsupported'')),
        elicitInput = (\<lambda>req. rejected (Thrown ''Error: unsupported''))\<rparr>
       ''configure_analysis'' (Some (JObj [(''text'', JStr ''Long text.'')])) ()
     = (Inr r, w') \<and> \<not> isError r) \<and>
   (\<exists>r. callTool \<lparr>matchAll = (\<lambda>ty s. []), StringToNumber = (\<lambda>s. NaN), NumberToString = (\<lambda>n. ''NaN'')\<rparr>
       mockProviders
       \<lparr>createMessage = (\<lambda>req. rejected (Thrown ''Error: unsupported'')),
        elicitInput = (\<lambda>req. rejected (Thrown ''Error: unsupported''))\<rparr>
       ''summarize'' (Some (JObj [(''text'', JStr ''Long text.'')])) ()
     = (Inr r, ()) \<and> \<not> isError r) \<and>
   callTool \<lparr>matchAll = (\<lambda>ty s. []), StringToNumber = (\<lambda>s. NaN), NumberToString = (\<lambda>n. ''NaN'')\<rparr>
       \<lparr>text = (\<lambda>prompt options. rejected (Thrown ''TypeError: fetch failed'')),
        search = (\<lambda>q n. rejected (Thrown ''TypeError: rawResults.slice is not a function'')),
        weather = (\<lambda>loc. rejected (Thrown ''TypeError: Cannot read properties of null''))\<rparr>
       \<lparr>createMessage = (\<lambda>req. rejected (Thrown ''Error: unsupported'')),
        elicitInput = (\<lambda>req. rejected (Thrown ''Error: unsupported''))\<rparr>
       ''summarize'' (Some (JObj [(''text'', JStr ''Long text.'')])) ()
     = (Inl (Uncaught (Thrown ''TypeError: fetch failed'')), ()) \<and>
   callTool \<lparr>matchAll = (\<lambda>ty s. []), StringToNumber = (\<lambda>s. NaN), NumberToString = (\<lambda>n. ''NaN'')\<rparr>
       \<lparr>text = (\<lambda>prompt options. rejected (Thrown ''TypeError: fetch failed'')),
        search = (\<lambda>q n. rejected (Thrown ''TypeError: rawResults.slice is not a function'')),
        weather = (\<lambda>loc. rejected (Thrown ''TypeError: Cannot read properties of null''))\<rparr>
       \<lparr>createMessage = (\<lambda>req. rejected (Thrown ''Error: unsupported'')),
        elicitInput = (\<lambda>req. rejected (Thrown ''Error: unsupported''))\<rparr>
       ''brave_web_search'' (Some (JObj [(''query'', JStr ''MCP protocol''), (''maxResults'', JNum 3)])) ()
     = (Inl (Uncaught (Thrown ''TypeError: rawResults.slice is not a function'')), ()) \<and>
   callTool \<lparr>matchAll = (\<lambda>ty s. []), StringToNumber = (\<lambda>s. NaN), NumberToString = (\<lambda>n. ''NaN'')\<rparr>
       \<lparr>text = (\<lambda>prompt options. rejected (Thrown ''TypeError: fetch failed'')),
        search = (\<lambda>q n. rejected (Thrown ''TypeError: rawResults.slice is not a function'')),
        weather = (\<lambda>loc. rejected (Thrown ''TypeError: Cannot read properties of null''))\<rparr>
       \<lparr>createMessage = (\<lambda>req. rejected (Thrown ''Error: unsupported'')),
        elicitInput = (\<lambda>req. rejected (Thrown ''Error: unsupported''))\<rparr>
       ''get_weather'' (Some (JObj [(''location'', JStr ''Paris'')])) ()
     = (Inl (Uncaught (Thrown ''TypeError: Cannot read properties of null'')), ()) \<and>
   ''get_weather'' \<in> set [''summarize'', ''brave_web_search'', ''get_weather''] \<and>
   callTool \<lparr>matchAll = (\<lambda>ty s. []), StringToNumber = (\<lambda>s. NaN), NumberToString = (\<lambda>n. ''NaN'')\<rparr>
       mockProviders
       \<lparr>createMessage = (\<lambda>req. rejected (Thrown ''Error: unsupported'')),
        elicitInput = (\<lambda>req. rejected (Thrown ''Error: unsupported''))\<rparr>
       ''smart_summarize'' (Some (JObj [(''text'', JStr ''Long text.'')])) ()
     \<noteq> (Inl (Uncaught (Thrown ''Error: unsupported'')), ())"
proof -
  have s1: "SummarizeSchema (Some (JObj [(''text'', JStr ''Long text.'')])) = Inr (SummarizeInput ''Long text.'' 100)"
    by (simp add: SummarizeSchema_def z_object2_def z_min_def z_string_def
        z_optional_default_def z_number_def)
  have s1': "SummarizeSchema (Some (JObj [(''text'', JStr ''Another text.''), (''maxLength'', JNum 20)])) = Inr (SummarizeInput ''Another text.'' 20)"
    by (simp add: SummarizeSchema_def z_object2_def z_min_def z_string_def
        z_optional_default_def z_number_def)
  have s2: "SearchSchema (Some (JObj [(''query'', JStr ''MCP protocol''), (''maxResults'', JNum 3)])) = Inr (SearchInput ''MCP protocol'' 3)"
    by (simp add: SearchSchema_def z_object2_def z_min_def z_string_def
        z_optional_default_def z_number_def)
  have s3: "WeatherSchema (Some (JObj [(''location'', JStr ''Paris'')])) = Inr (WeatherInput ''Paris'' fahrenheit)"
    by (simp add: WeatherSchema_def z_object2_def z_min_def z_string_def
        z_optional_default_def z_enum_def)
  have s4: "SmartSummarizeSchema (Some (JObj [(''text'', JStr ''Long text.'')])) = Inr (SummarizeInput ''Long text.'' 150)"
    by (simp add: SmartSummarizeSchema_def z_object2_def z_min_def z_string_def
        z_optional_default_def z_number_def)
  have s5: "SentimentSchema (Some (JObj [(''text'', JStr ''Long text.'')])) = Inr (SentimentInput ''Long text.'')"
    by (simp add: SentimentSchema_def z_object1_def z_min_def z_string_def)
  have s6: "EntitySchema (Some (JObj [(''text'', JStr ''Long text.'')]))
      = Inr (EntityInput ''Long text.'' [entity_person, entity_organization, entity_location])"
    by (simp add: EntitySchema_def z_object2_def z_min_def z_string_def
        z_optional_default_def z_array_def z_enum_def entity_types_def)
  have s7: "ConfigureAnalysisSchema (Some (JObj [(''text'', JStr ''Long text.'')])) = Inr (ConfigureAnalysisInput ''Long text.'')"
    by (simp add: ConfigureAnalysisSchema_def z_object1_def z_min_def z_string_def)
  note sch = s1 s1' s2 s3 s4 s5 s6 s7
  obtain v1 where h1: "summarize \<lparr>matchAll = (\<lambda>ty s. []), StringToNumber = (\<lambda>s. NaN), NumberToString = (\<lambda>n. ''NaN'')\<rparr>
      (SummarizeInput ''Another text.'' 20) (text mockProviders) () = (Inr (Ok v1), ())"
    using summarize_mock [of _ "SummarizeInput ''Another text.'' 20" "()"]
    by (auto simp: mockProviders_def)
  obtain v2 where h2: "webSearch (SearchInput ''MCP protocol'' 3) (search mockProviders) ()
      = (Inr (Ok v2), ())"
    by (simp add: webSearch_def mockProviders_def resolved_def MockWebSearchProvider_search_def)
  obtain v3 where g3: "MockWeatherProvider_getWeather ''Paris'' = Ok v3"
    using mock_weather_ok by blast
  have h3: "getWeather (WeatherInput ''Paris'' fahrenheit) (weather mockProviders) ()
      = (Inr (Ok v3), ())"
    by (simp add: getWeather_def mockProviders_def resolved_def g3)
  have i1: "callTool \<lparr>matchAll = (\<lambda>ty s. []), StringToNumber = (\<lambda>s. NaN), NumberToString = (\<lambda>n. ''NaN'')\<rparr>
       \<lparr>text = (\<lambda>prompt options. resolved (Err ''completion backend unavailable'')),
        search = (\<lambda>q n. resolved (Err ''Brave Search API error: HTTP 429'')),
        weather = (\<lambda>loc. resolved (Err ''OpenWeatherMap API error: HTTP 401''))\<rparr>
       \<lparr>createMessage = (\<lambda>req. rejected (Thrown ''Error: unsupported'')),
        elicitInput = (\<lambda>req. rejected (Thrown ''Error: unsupported''))\<rparr>
       ''summarize'' (Some (JObj [(''text'', JStr ''Long text.'')])) ()
     = (Inr (error_response ''completion backend unavailable''), ())"
    using
    handler_failures_and_exceptions [where rt = "\<lparr>matchAll = (\<lambda>ty s. []), StringToNumber = (\<lambda>s. NaN), NumberToString = (\<lambda>n. ''NaN'')\<rparr>"
      and providers = "\<lparr>text = (\<lambda>prompt options. resolved (Err ''completion backend unavailable'')),
        search = (\<lambda>q n. resolved (Err ''Brave Search API error: HTTP 429'')),
        weather = (\<lambda>loc. resolved (Err ''OpenWeatherMap API error: HTTP 401''))\<rparr>"
      and srv = "\<lparr>createMessage = (\<lambda>req. rejected (Thrown ''Error: unsupported'')),
        elicitInput = (\<lambda>req. rejected (Thrown ''Error: unsupported''))\<rparr>"
      and args = "Some (JObj [(''text'', JStr ''Long text.'')])" and w = "()" and w' = "()" and si = "SummarizeInput ''Long text.'' 100" and e = "''completion backend unavailable''"]
    by (simp add: sch summarize_def webSearch_def getWeather_def smartSummarize_def
        resolved_def rejected_def mockProviders_def)
  have i2: "callTool \<lparr>matchAll = (\<lambda>ty s. []), StringToNumber = (\<lambda>s. NaN), NumberToString = (\<lambda>n. ''NaN'')\<rparr>
       \<lparr>text = (\<lambda>prompt options. resolved (Err ''completion backend unavailable'')),
        search = (\<lambda>q n. resolved (Err ''Brave Search API error: HTTP 429'')),
        weather = (\<lambda>loc. resolved (Err ''OpenWeatherMap API error: HTTP 401''))\<rparr>
       \<lparr>createMessage = (\<lambda>req. rejected (Thrown ''Error: unsupported'')),
        elicitInput = (\<lambda>req. rejected (Thrown ''Error: unsupported''))\<rparr>
       ''brave_web_search'' (Some (JObj [(''query'', JStr ''MCP protocol''), (''maxResults'', JNum 3)])) ()
     = (Inr (error_response ''Brave Search API error: HTTP 429''), ())"
    using
    handler_failures_and_exceptions [where rt = "\<lparr>matchAll = (\<lambda>ty s. []), StringToNumber = (\<lambda>s. NaN), NumberToString = (\<lambda>n. ''NaN'')\<rparr>"
      and providers = "\<lparr>text = (\<lambda>prompt options. resolved (Err ''completion backend unavailable'')),
        search = (\<lambda>q n. resolved (Err ''Brave Search API error: HTTP 429'')),
        weather = (\<lambda>loc. resolved (Err ''OpenWeatherMap API error: HTTP 401''))\<rparr>"
      and srv = "\<lparr>createMessage = (\<lambda>req. rejected (Thrown ''Error: unsupported'')),
        elicitInput = (\<lambda>req. rejected (Thrown ''Error: unsupported''))\<rparr>"
      and args = "Some (JObj [(''query'', JStr ''MCP protocol''), (''maxResults'', JNum 3)])" and w = "()" and w' = "()" and qi = "SearchInput ''MCP protocol'' 3" and e = "''Brave Search API error: HTTP 429''"]
    by (simp add: sch summarize_def webSearch_def getWeather_def smartSummarize_def
        resolved_def rejected_def mockProviders_def)
  have i3: "callTool \<lparr>matchAll = (\<lambda>ty s. []), StringToNumber = (\<lambda>s. NaN), NumberToString = (\<lambda>n. ''NaN'')\<rparr>
       \<lparr>text = (\<lambda>prompt options. resolved (Err ''completion backend unavailable'')),
        search = (\<lambda>q n. resolved (Err ''Brave Search API error: HTTP 429'')),
        weather = (\<lambda>loc. resolved (Err ''OpenWeatherMap API error: HTTP 401''))\<rparr>
       \<lparr>createMessage = (\<lambda>req. rejected (Thrown ''Error: unsupported'')),
        elicitInput = (\<lambda>req. rejected (Thrown ''Error: unsupported''))\<rparr>
       ''get_weather'' (Some (JObj [(''location'', JStr ''Paris'')])) ()
     = (Inr (error_response ''OpenWeatherMap API error: HTTP 401''), ())"
    using
    handler_failures_and_exceptions [where rt = "\<lparr>matchAll = (\<lambda>ty s. []), StringToNumber = (\<lambda>s. NaN), NumberToString = (\<lambda>n. ''NaN'')\<rparr>"
      and providers = "\<lparr>text = (\<lambda>prompt options. resolved (Err ''completion backend unavailable'')),
        search = (\<lambda>q n. resolved (Err ''Brave Search API error: HTTP 429'')),
        weather = (\<lambda>loc. resolved (Err ''OpenWeatherMap API error: HTTP 401''))\<rparr>"
      and srv = "\<lparr>createMessage = (\<lambda>req. rejected (Thrown ''Error: unsupported'')),
        elicitInput = (\<lambda>req. rejected (Thrown ''Error: unsupported''))\<rparr>"
      and args = "Some (JObj [(''location'', JStr ''Paris'')])" and w = "()" and w' = "()" and wi = "WeatherInput ''Paris'' fahrenheit" and e = "''OpenWeatherMap API error: HTTP 401''"]
    by (simp add: sch summarize_def webSearch_def getWeather_def smartSummarize_def
        resolved_def rejected_def mockProviders_def)
  have i4: "callTool \<lparr>matchAll = (\<lambda>ty s. []), StringToNumber = (\<lambda>s. NaN), NumberToString = (\<lambda>n. ''NaN'')\<rparr>
       mockProviders
       \<lparr>createMessage = (\<lambda>req. rejected (Thrown ''Error: unsupported'')),
        elicitInput = (\<lambda>req. rejected (Thrown ''Error: unsupported''))\<rparr>
       ''smart_summarize'' (Some (JObj [(''text'', JStr ''Long text.'')])) ()
     = (Inr (error_response ''Sampling request failed: Error: unsupported''), ())"
    using
    handler_failures_and_exceptions [where rt = "\<lparr>matchAll = (\<lambda>ty s. []), StringToNumber = (\<lambda>s. NaN), NumberToString = (\<lambda>n. ''NaN'')\<rparr>"
      and providers = "mockProviders"
      and srv = "\<lparr>createMessage = (\<lambda>req. rejected (Thrown ''Error: unsupported'')),
        elicitInput = (\<lambda>req. rejected (Thrown ''Error: unsupported''))\<rparr>"
      and args = "Some (JObj [(''text'', JStr ''Long text.'')])" and w = "()" and w' = "()" and si = "SummarizeInput ''Long text.'' 150" and e = "''Sampling request failed: Error: unsupported''"]
    by (simp add: sch summarize_def webSearch_def getWeather_def smartSummarize_def
        resolved_def rejected_def mockProviders_def)
  have k1: "(\<exists>r. callTool \<lparr>matchAll = (\<lambda>ty s. []), StringToNumber = (\<lambda>s. NaN), NumberToString = (\<lambda>n. ''NaN'')\<rparr>
       mockProviders
       \<lparr>createMessage = (\<lambda>req. rejected (Thrown ''Error: unsupported'')),
        elicitInput = (\<lambda>req. rejected (Thrown ''Error: unsupported''))\<rparr>
       ''summarize'' (Some (JObj [(''text'', JStr ''Another text.''), (''maxLength'', JNum 20)])) ()
     = (Inr r, ()) \<and> \<not> isError r)"
    using h1
    handler_failures_and_exceptions [where rt = "\<lparr>matchAll = (\<lambda>ty s. []), StringToNumber = (\<lambda>s. NaN), NumberToString = (\<lambda>n. ''NaN'')\<rparr>"
      and providers = "mockProviders"
      and srv = "\<lparr>createMessage = (\<lambda>req. rejected (Thrown ''Error: unsupported'')),
        elicitInput = (\<lambda>req. rejected (Thrown ''Error: unsupported''))\<rparr>"
      and args = "Some (JObj [(''text'', JStr ''Another text.''), (''maxLength'', JNum 20)])" and w = "()" and w' = "()" and si = "SummarizeInput ''Another text.'' 20" and v = v1]
    by (simp add: sch summarize_def webSearch_def getWeather_def smartSummarize_def
        resolved_def rejected_def mockProviders_def)
  have k2: "(\<exists>r. callTool \<lparr>matchAll = (\<lambda>ty s. []), StringToNumber = (\<lambda>s. NaN), NumberToString = (\<lambda>n. ''NaN'')\<rparr>
       mockProviders
       \<lparr>createMessage = (\<lambda>req. rejected (Thrown ''Error: unsupported'')),
        elicitInput = (\<lambda>req. rejected (Thrown ''Error: unsupported''))\<rparr>
       ''brave_web_search'' (Some (JObj [(''query'', JStr ''MCP protocol''), (''maxResults'', JNum 3)])) ()
     = (Inr r, ()) \<and> \<not> isError r)"
    using h2
    handler_failures_and_exceptions [where rt = "\<lparr>matchAll = (\<lambda>ty s. []), StringToNumber = (\<lambda>s. NaN), NumberToString = (\<lambda>n. ''NaN'')\<rparr>"
      and providers = "mockProviders"
      and srv = "\<lparr>createMessage = (\<lambda>req. rejected (Thrown ''Error: unsupported'')),
        elicitInput = (\<lambda>req. rejected (Thrown ''Error: unsupported''))\<rparr>"
      and args = "Some (JObj [(''query'', JStr ''MCP protocol''), (''maxResults'', JNum 3)])" and w = "()" and w' = "()" and qi = "SearchInput ''MCP protocol'' 3" and vs = v2]
    by (simp add: sch summarize_def webSearch_def getWeather_def smartSummarize_def
        resolved_def rejected_def mockProviders_def)
  have k3: "(\<exists>r. callTool \<lparr>matchAll = (\<lambda>ty s. []), StringToNumber = (\<lambda>s. NaN), NumberToString = (\<lambda>n. ''NaN'')\<rparr>
       mockProviders
       \<lparr>createMessage = (\<lambda>req. rejected (Thrown ''Error: unsupported'')),
        elicitInput = (\<lambda>req. rejected (Thrown ''Error: unsupported''))\<rparr>
       ''get_weather'' (Some (JObj [(''location'', JStr ''Paris'')])) ()
     = (Inr r, ()) \<and> \<not> isError r)"
    using h3
    handler_failures_and_exceptions [where rt = "\<lparr>matchAll = (\<lambda>ty s. []), StringToNumber = (\<lambda>s. NaN), NumberToString = (\<lambda>n. ''NaN'')\<rparr>"
      and providers = "mockProviders"
      and srv = "\<lparr>createMessage = (\<lambda>req. rejected (Thrown ''Error: unsupported'')),
        elicitInput = (\<lambda>req. rejected (Thrown ''Error: unsupported''))\<rparr>"
      and args = "Some (JObj [(''location'', JStr ''Paris'')])" and w = "()" and w' = "()" and wi = "WeatherInput ''Paris'' fahrenheit" and vw = v3]
    by (simp add: sch summarize_def webSearch_def getWeather_def smartSummarize_def
        resolved_def rejected_def mockProviders_def)
  have k4: "(\<exists>r. callTool \<lparr>matchAll = (\<lambda>ty s. []), StringToNumber = (\<lambda>s. NaN), NumberToString = (\<lambda>n. ''NaN'')\<rparr>
       mockProviders
       \<lparr>createMessage = (\<lambda>req. resolved (CreateMessageResult (TextContent ''AI safety summary.''))),
        elicitInput = (\<lambda>req. rejected (Thrown ''Error: unsupported''))\<rparr>
       ''smart_summarize'' (Some (JObj [(''text'', JStr ''Long text.'')])) ()
     = (Inr r, ()) \<and> \<not> isError r)"
    using
    handler_failures_and_exceptions [where rt = "\<lparr>matchAll = (\<lambda>ty s. []), StringToNumber = (\<lambda>s. NaN), NumberToString = (\<lambda>n. ''NaN'')\<rparr>"
      and providers = "mockProviders"
      and srv = "\<lparr>createMessage = (\<lambda>req. resolved (CreateMessageResult (TextContent ''AI safety summary.''))),
        elicitInput = (\<lambda>req. rejected (Thrown ''Error: unsupported''))\<rparr>"
      and args = "Some (JObj [(''text'', JStr ''Long text.'')])" and w = "()" and w' = "()" and si = "SummarizeInput ''Long text.'' 150" and v = "''AI safety summary.''"]
    by (simp add: sch summarize_def webSearch_def getWeather_def smartSummarize_def
        resolved_def rejected_def mockProviders_def)
  have i5: "(\<exists>r. callTool \<lparr>matchAll = (\<lambda>ty s. []), StringToNumber = (\<lambda>s. NaN), NumberToString = (\<lambda>n. ''NaN'')\<rparr>
       mockProviders
       \<lparr>createMessage = (\<lambda>req. rejected (Thrown ''Error: unsupported'')),
        elicitInput = (\<lambda>req. rejected (Thrown ''Error: unsupported''))\<rparr>
       ''analyze_sentiment'' (Some (JObj [(''text'', JStr ''Long text.'')])) ()
     = (Inr r, ()) \<and> \<not> isError r)"
    using
    handler_failures_and_exceptions [where rt = "\<lparr>matchAll = (\<lambda>ty s. []), StringToNumber = (\<lambda>s. NaN), NumberToString = (\<lambda>n. ''NaN'')\<rparr>"
      and providers = "mockProviders"
      and srv = "\<lparr>createMessage = (\<lambda>req. rejected (Thrown ''Error: unsupported'')),
        elicitInput = (\<lambda>req. rejected (Thrown ''Error: unsupported''))\<rparr>"
      and args = "Some (JObj [(''text'', JStr ''Long text.'')])" and w = "()" and w' = "()" and ai = "SentimentInput ''Long text.''"]
    by (simp add: sch summarize_def webSearch_def getWeather_def smartSummarize_def
        resolved_def rejected_def mockProviders_def)
  have i6: "(\<exists>r. callTool \<lparr>matchAll = (\<lambda>ty s. []), StringToNumber = (\<lambda>s. NaN), NumberToString = (\<lambda>n. ''NaN'')\<rparr>
       mockProviders
       \<lparr>createMessage = (\<lambda>req. rejected (Thrown ''Error: unsupported'')),
        elicitInput = (\<lambda>req. rejected (Thrown ''Error: unsupported''))\<rparr>
       ''extract_entities'' (Some (JObj [(''text'', JStr ''Long text.'')])) ()
     = (Inr r, ()) \<and> \<not> isError r)"
    using
    handler_failures_and_exceptions [where rt = "\<lparr>matchAll = (\<lambda>ty s. []), StringToNumber = (\<lambda>s. NaN), NumberToString = (\<lambda>n. ''NaN'')\<rparr>"
      and providers = "mockProviders"
      and srv = "\<lparr>createMessage = (\<lambda>req. rejected (Thrown ''Error: unsupported'')),
        elicitInput = (\<lambda>req. rejected (Thrown ''Error: unsupported''))\<rparr>"
      and args = "Some (JObj [(''text'', JStr ''Long text.'')])" and w = "()" and w' = "()" and ei = "EntityInput ''Long text.'' [entity_person, entity_organization, entity_location]"]
    by (simp add: sch summarize_def webSearch_def getWeather_def smartSummarize_def
        resolved_def rejected_def mockProviders_def)
  have i7: "(\<exists>r w'. callTool \<lparr>matchAll = (\<lambda>ty s. []), StringToNumber = (\<lambda>s. NaN), NumberToString = (\<lambda>n. ''NaN'')\<rparr>
       mockProviders
       \<lparr>createMessage = (\<lambda>req. rejected (Thrown ''Error: unsupported'')),
        elicitInput = (\<lambda>req. rejected (Thrown ''Error: unsupported''))\<rparr>
       ''configure_analysis'' (Some (JObj [(''text'', JStr ''Long text.'')])) ()
     = (Inr r, w') \<and> \<not> isError r)"
    using
    handler_failures_and_exceptions [where rt = "\<lparr>matchAll = (\<lambda>ty s. []), StringToNumber = (\<lambda>s. NaN), NumberToString = (\<lambda>n. ''NaN'')\<rparr>"
      and providers = "mockProviders"
      and srv = "\<lparr>createMessage = (\<lambda>req. rejected (Thrown ''Error: unsupported'')),
        elicitInput = (\<lambda>req. rejected (Thrown ''Error: unsupported''))\<rparr>"
      and args = "Some (JObj [(''text'', JStr ''Long text.'')])" and w = "()" and w' = "()" and ci = "ConfigureAnalysisInput ''Long text.''"]
    by (simp add: sch summarize_def webSearch_def getWeather_def smartSummarize_def
        resolved_def rejected_def mockProviders_def)
  have i8: "(\<exists>r. callTool \<lparr>matchAll = (\<lambda>ty s. []), StringToNumber = (\<lambda>s. NaN), NumberToString = (\<lambda>n. ''NaN'')\<rparr>
       mockProviders
       \<lparr>createMessage = (\<lambda>req. rejected (Thrown ''Error: unsupported'')),
        elicitInput = (\<lambda>req. rejected (Thrown ''Error: unsupported''))\<rparr>
       ''summarize'' (Some (JObj [(''text'', JStr ''Long text.'')])) ()
     = (Inr r, ()) \<and> \<not> isError r)"
    using
    handler_failures_and_exceptions [where rt = "\<lparr>matchAll = (\<lambda>ty s. []), StringToNumber = (\<lambda>s. NaN), NumberToString = (\<lambda>n. ''NaN'')\<rparr>"
      and providers = "mockProviders"
      and srv = "\<lparr>createMessage = (\<lambda>req. rejected (Thrown ''Error: unsupported'')),
        elicitInput = (\<lambda>req. rejected (Thrown ''Error: unsupported''))\<rparr>"
      and args = "Some (JObj [(''text'', JStr ''Long text.'')])" and w = "()" and w' = "()" and si = "SummarizeInput ''Long text.'' 100"]
    by (simp add: sch summarize_def webSearch_def getWeather_def smartSummarize_def
        resolved_def rejected_def mockProviders_def)
  have i9: "callTool \<lparr>matchAll = (\<lambda>ty s. []), StringToNumber = (\<lambda>s. NaN), NumberToString = (\<lambda>n. ''NaN'')\<rparr>
       \<lparr>text = (\<lambda>prompt options. rejected (Thrown ''TypeError: fetch failed'')),
        search = (\<lambda>q n. rejected (Thrown ''TypeError: rawResults.slice is not a function'')),
        weather = (\<lambda>loc. rejected (Thrown ''TypeError: Cannot read properties of null''))\<rparr>
       \<lparr>createMessage = (\<lambda>req. rejected (Thrown ''Error: unsupported'')),
        elicitInput = (\<lambda>req. rejected (Thrown ''Error: unsupported''))\<rparr>
       ''summarize'' (Some (JObj [(''text'', JStr ''Long text.'')])) ()
     = (Inl (Uncaught (Thrown ''TypeError: fetch failed'')), ())"
    using
    handler_failures_and_exceptions [where rt = "\<lparr>matchAll = (\<lambda>ty s. []), StringToNumber = (\<lambda>s. NaN), NumberToString = (\<lambda>n. ''NaN'')\<rparr>"
      and providers = "\<lparr>text = (\<lambda>prompt options. rejected (Thrown ''TypeError: fetch failed'')),
        search = (\<lambda>q n. rejected (Thrown ''TypeError: rawResults.slice is not a function'')),
        weather = (\<lambda>loc. rejected (Thrown ''TypeError: Cannot read properties of null''))\<rparr>"
      and srv = "\<lparr>createMessage = (\<lambda>req. rejected (Thrown ''Error: unsupported'')),
        elicitInput = (\<lambda>req. rejected (Thrown ''Error: unsupported''))\<rparr>"
      and args = "Some (JObj [(''text'', JStr ''Long text.'')])" and w = "()" and w' = "()" and si = "SummarizeInput ''Long text.'' 100" and x = "Thrown ''TypeError: fetch failed''"]
    by (simp add: sch summarize_def webSearch_def getWeather_def smartSummarize_def
        resolved_def rejected_def mockProviders_def)
  have i10: "callTool \<lparr>matchAll = (\<lambda>ty s. []), StringToNumber = (\<lambda>s. NaN), NumberToString = (\<lambda>n. ''NaN'')\<rparr>
       \<lparr>text = (\<lambda>prompt options. rejected (Thrown ''TypeError: fetch failed'')),
        search = (\<lambda>q n. rejected (Thrown ''TypeError: rawResults.slice is not a function'')),
        weather = (\<lambda>loc. rejected (Thrown ''TypeError: Cannot read properties of null''))\<rparr>
       \<lparr>createMessage = (\<lambda>req. rejected (Thrown ''Error: unsupported'')),
        elicitInput = (\<lambda>req. rejected (Thrown ''Error: unsupported''))\<rparr>
       ''brave_web_search'' (Some (JObj [(''query'', JStr ''MCP protocol''), (''maxResults'', JNum 3)])) ()
     = (Inl (Uncaught (Thrown ''TypeError: rawResults.slice is not a function'')), ())"
    using
    handler_failures_and_exceptions [where rt = "\<lparr>matchAll = (\<lambda>ty s. []), StringToNumber = (\<lambda>s. NaN), NumberToString = (\<lambda>n. ''NaN'')\<rparr>"
      and providers = "\<lparr>text = (\<lambda>prompt options. rejected (Thrown ''TypeError: fetch failed'')),
        search = (\<lambda>q n. rejected (Thrown ''TypeError: rawResults.slice is not a function'')),
        weather = (\<lambda>loc. rejected (Thrown ''TypeError: Cannot read properties of null''))\<rparr>"
      and srv = "\<lparr>createMessage = (\<lambda>req. rejected (Thrown ''Error: unsupported'')),
        elicitInput = (\<lambda>req. rejected (Thrown ''Error: unsupported''))\<rparr>"
      and args = "Some (JObj [(''query'', JStr ''MCP protocol''), (''maxResults'', JNum 3)])" and w = "()" and w' = "()" and qi = "SearchInput ''MCP protocol'' 3" and x = "Thrown ''TypeError: rawResults.slice is not a function''"]
    by (simp add: sch summarize_def webSearch_def getWeather_def smartSummarize_def
        resolved_def rejected_def mockProviders_def)
  have i11: "callTool \<lparr>matchAll = (\<lambda>ty s. []), StringToNumber = (\<lambda>s. NaN), NumberToString = (\<lambda>n. ''NaN'')\<rparr>
       \<lparr>text = (\<lambda>prompt options. rejected (Thrown ''TypeError: fetch failed'')),
        search = (\<lambda>q n. rejected (Thrown ''TypeError: rawResults.slice is not a function'')),
        weather = (\<lambda>loc. rejected (Thrown ''TypeError: Cannot read properties of null''))\<rparr>
       \<lparr>createMessage = (\<lambda>req. rejected (Thrown ''Error: unsupported'')),
        elicitInput = (\<lambda>req. rejected (Thrown ''Error: unsupported''))\<rparr>
       ''get_weather'' (Some (JObj [(''location'', JStr ''Paris'')])) ()
     = (Inl (Uncaught (Thrown ''TypeError: Cannot read properties of null'')), ())"
    using
    handler_failures_and_exceptions [where rt = "\<lparr>matchAll = (\<lambda>ty s. []), StringToNumber = (\<lambda>s. NaN), NumberToString = (\<lambda>n. ''NaN'')\<rparr>"
      and providers = "\<lparr>text = (\<lambda>prompt options. rejected (Thrown ''TypeError: fetch failed'')),
        search = (\<lambda>q n. rejected (Thrown ''TypeError: rawResults.slice is not a function'')),
        weather = (\<lambda>loc. rejected (Thrown ''TypeError: Cannot read properties of null''))\<rparr>"
      and srv = "\<lparr>createMessage = (\<lambda>req. rejected (Thrown ''Error: unsupported'')),
        elicitInput = (\<lambda>req. rejected (Thrown ''Error: unsupported''))\<rparr>"
      and args = "Some (JObj [(''location'', JStr ''Paris'')])" and w = "()" and w' = "()" and wi = "WeatherInput ''Paris'' fahrenheit" and x = "Thrown ''TypeError: Cannot read properties of null''"]
    by (simp add: sch summarize_def webSearch_def getWeather_def smartSummarize_def
        resolved_def rejected_def mockProviders_def)
  have i12: "''get_weather'' \<in> set [''summarize'', ''brave_web_search'', ''get_weather'']"
    using i11
    handler_failures_and_exceptions [where rt = "\<lparr>matchAll = (\<lambda>ty s. []), StringToNumber = (\<lambda>s. NaN), NumberToString = (\<lambda>n. ''NaN'')\<rparr>"
      and providers = "\<lparr>text = (\<lambda>prompt options. rejected (Thrown ''TypeError: fetch failed'')),
        search = (\<lambda>q n. rejected (Thrown ''TypeError: rawResults.slice is not a function'')),
        weather = (\<lambda>loc. rejected (Thrown ''TypeError: Cannot read properties of null''))\<rparr>"
      and srv = "\<lparr>createMessage = (\<lambda>req. rejected (Thrown ''Error: unsupported'')),
        elicitInput = (\<lambda>req. rejected (Thrown ''Error: unsupported''))\<rparr>"
      and args = "Some (JObj [(''location'', JStr ''Paris'')])" and w = "()" and w' = "()" and tool = "''get_weather''" and err = "Uncaught (Thrown ''TypeError: Cannot read properties of null'')"]
    by (simp add: sch summarize_def webSearch_def getWeather_def smartSummarize_def
        resolved_def rejected_def mockProviders_def)
  have i13: "callTool \<lparr>matchAll = (\<lambda>ty s. []), StringToNumber = (\<lambda>s. NaN), NumberToString = (\<lambda>n. ''NaN'')\<rparr>
       mockProviders
       \<lparr>createMessage = (\<lambda>req. rejected (Thrown ''Error: unsupported'')),
        elicitInput = (\<lambda>req. rejected (Thrown ''Error: unsupported''))\<rparr>
       ''smart_summarize'' (Some (JObj [(''text'', JStr ''Long text.'')])) ()
     \<noteq> (Inl (Uncaught (Thrown ''Error: unsupported'')), ())"
    using
    handler_failures_and_exceptions [where rt = "\<lparr>matchAll = (\<lambda>ty s. []), StringToNumber = (\<lambda>s. NaN), NumberToString = (\<lambda>n. ''NaN'')\<rparr>"
      and providers = "mockProviders"
      and srv = "\<lparr>createMessage = (\<lambda>req. rejected (Thrown ''Error: unsupported'')),
        elicitInput = (\<lambda>req. rejected (Thrown ''Error: unsupported''))\<rparr>"
      and args = "Some (JObj [(''text'', JStr ''Long text.'')])" and w = "()" and w' = "()" and tool = "''smart_summarize''" and err = "Uncaught (Thrown ''Error: unsupported'')"]
    by (simp add: sch summarize_def webSearch_def getWeather_def smartSummarize_def
        resolved_def rejected_def mockProviders_def)
  show ?thesis
    using i1 i2 i3 i4 k1 k2 k3 k4 i5 i6 i7 i8 i9 i10 i11 i12 i13 by (intro conjI)
qed

end
